theory Spec2Isabelle
  imports Main
begin

section \<open>JavaScript values and the library functions the program calls\<close>

text \<open>
  The values the program handles: \<open>undefined\<close>, the values of parsed JSON documents, strings
  and arrays of strings (a query parameter given several times). Strings are byte strings
  (UTF-8). Numbers are restricted to integers below \<open>10\<^sup>2\<^sup>1\<close> in magnitude, which JavaScript
  prints in plain decimal notation; no property stated below depends on a number.
\<close>

datatype jsval =
    JUndefined
  | JNull
  | JBool bool
  | JNum int
  | JStr string
  | JArr "jsval list"
  | JObj "(string \<times> jsval) list"

text \<open>An \<open>Error\<close> object, with the two properties the program reads.\<close>

datatype js_error = JsError (cause: jsval) (message: string)

text \<open>The conversion to a boolean made by \<open>if (x)\<close>, \<open>!x\<close> and \<open>x && y\<close>.\<close>

fun truthy :: "jsval \<Rightarrow> bool" where
  "truthy JUndefined = False"
| "truthy JNull = False"
| "truthy (JBool b) = b"
| "truthy (JNum n) = (n \<noteq> 0)"
| "truthy (JStr s) = (s \<noteq> [])"
| "truthy (JArr xs) = True"
| "truthy (JObj kvs) = True"

fun show_nat :: "nat \<Rightarrow> string" where
  "show_nat n =
     (if n < 10 then [''0123456789'' ! n]
      else show_nat (n div 10) @ [''0123456789'' ! (n mod 10)])"

definition show_int :: "int \<Rightarrow> string" where
  "show_int i = (if i < 0 then ''-'' @ show_nat (nat (- i)) else show_nat (nat i))"

text \<open>
  The conversion to a string made by a template literal \<open>${x}\<close>, by a property key
  \<open>obj[x]\<close> and by \<open>URLSearchParams\<close>: an array is joined with commas, its \<open>undefined\<close> and
  \<open>null\<close> elements giving the empty string.
\<close>

fun js_to_string :: "jsval \<Rightarrow> string"
  and js_join :: "jsval list \<Rightarrow> string" where
  "js_to_string JUndefined = ''undefined''"
| "js_to_string JNull = ''null''"
| "js_to_string (JBool b) = (if b then ''true'' else ''false'')"
| "js_to_string (JNum n) = show_int n"
| "js_to_string (JStr s) = s"
| "js_to_string (JArr xs) = js_join xs"
| "js_to_string (JObj kvs) = ''[object Object]''"
| "js_join [] = []"
| "js_join (x # xs) =
     (case x of JUndefined \<Rightarrow> [] | JNull \<Rightarrow> [] | _ \<Rightarrow> js_to_string x)
       @ (if xs = [] then [] else '','' @ js_join xs)"

text \<open>
  Reading a property of \<open>undefined\<close> or \<open>null\<close>, or destructuring one of them, throws a
  \<open>TypeError\<close>; on any other value a property that is not there reads as \<open>undefined\<close>.
\<close>

definition nullish :: "jsval \<Rightarrow> bool" where
  "nullish v = (v = JUndefined \<or> v = JNull)"

definition get_prop :: "jsval \<Rightarrow> string \<Rightarrow> jsval" where
  "get_prop v k =
     (case v of
        JObj kvs \<Rightarrow> (case map_of kvs k of Some x \<Rightarrow> x | None \<Rightarrow> JUndefined)
      | _ \<Rightarrow> JUndefined)"

text \<open>
  \<open>new URLSearchParams(entries).toString()\<close>: the serialisation of
  \<open>application/x-www-form-urlencoded\<close>. Letters, digits and \<open>* - . _\<close> stand for
  themselves, a space becomes \<open>+\<close>, every other byte is percent-encoded.
\<close>

definition hex_digit :: "nat \<Rightarrow> char" where
  "hex_digit n = ''0123456789ABCDEF'' ! n"

definition urlencode_byte :: "char \<Rightarrow> string" where
  "urlencode_byte c =
     (if c \<in> set ''abcdefghijklmnopqrstuvwxyzABCDEFGHIJKLMNOPQRSTUVWXYZ0123456789*-._'' then [c]
      else if c = CHR '' '' then ''+''
      else [CHR ''%'', hex_digit (of_char c div 16), hex_digit (of_char c mod 16)])"

definition urlencode :: "string \<Rightarrow> string" where
  "urlencode s = concat (map urlencode_byte s)"

fun join_with :: "string \<Rightarrow> string list \<Rightarrow> string" where
  "join_with sep [] = []"
| "join_with sep [x] = x"
| "join_with sep (x # y # ys) = x @ sep @ join_with sep (y # ys)"

definition URLSearchParams_toString :: "(string \<times> jsval) list \<Rightarrow> string" where
  "URLSearchParams_toString entries =
     join_with ''&'' (map (\<lambda>(k, v). urlencode k @ ''='' @ urlencode (js_to_string v)) entries)"

text \<open>
  \<open>JSON.stringify(value, null, 2)\<close>: the serialisation with an indentation of two spaces.
  The result is \<open>undefined\<close> (here \<open>None\<close>) for the value \<open>undefined\<close>; inside an array
  \<open>undefined\<close> is written \<open>null\<close>, and a property whose value is \<open>undefined\<close> is left out.
\<close>

definition quote_char :: "char \<Rightarrow> string" where
  "quote_char c =
     (if c = CHR 0x08 then [CHR 0x5C, CHR ''b'']
      else if c = CHR 0x09 then [CHR 0x5C, CHR ''t'']
      else if c = CHR 0x0A then [CHR 0x5C, CHR ''n'']
      else if c = CHR 0x0C then [CHR 0x5C, CHR ''f'']
      else if c = CHR 0x0D then [CHR 0x5C, CHR ''r'']
      else if c = CHR 0x22 then [CHR 0x5C, CHR 0x22]
      else if c = CHR 0x5C then [CHR 0x5C, CHR 0x5C]
      else if (of_char c :: nat) < 32
        then [CHR 0x5C, CHR ''u'', CHR ''0'', CHR ''0'',
              ''0123456789abcdef'' ! (of_char c div 16), ''0123456789abcdef'' ! (of_char c mod 16)]
      else [c])"

definition QuoteJSONString :: "string \<Rightarrow> string" where
  "QuoteJSONString s = [CHR 0x22] @ concat (map quote_char s) @ [CHR 0x22]"

definition wrap_json :: "string \<Rightarrow> string \<Rightarrow> string \<Rightarrow> string list \<Rightarrow> string" where
  "wrap_json opening closing indent partial =
     (if partial = [] then opening @ closing
      else opening @ [CHR 0x0A] @ indent @ ''  ''
             @ join_with ('','' @ [CHR 0x0A] @ indent @ ''  '') partial
             @ [CHR 0x0A] @ indent @ closing)"

fun SerializeJSONProperty :: "string \<Rightarrow> jsval \<Rightarrow> string option"
  and SerializeJSONArray :: "string \<Rightarrow> jsval list \<Rightarrow> string list"
  and SerializeJSONObject :: "string \<Rightarrow> (string \<times> jsval) list \<Rightarrow> string list" where
  "SerializeJSONProperty indent JUndefined = None"
| "SerializeJSONProperty indent JNull = Some ''null''"
| "SerializeJSONProperty indent (JBool b) = Some (if b then ''true'' else ''false'')"
| "SerializeJSONProperty indent (JNum n) = Some (show_int n)"
| "SerializeJSONProperty indent (JStr s) = Some (QuoteJSONString s)"
| "SerializeJSONProperty indent (JArr xs) =
     Some (wrap_json ''['' '']'' indent (SerializeJSONArray (indent @ ''  '') xs))"
| "SerializeJSONProperty indent (JObj kvs) =
     Some (wrap_json ''{'' ''}'' indent (SerializeJSONObject (indent @ ''  '') kvs))"
| "SerializeJSONArray indent [] = []"
| "SerializeJSONArray indent (x # xs) =
     (case SerializeJSONProperty indent x of None \<Rightarrow> ''null'' | Some s \<Rightarrow> s)
       # SerializeJSONArray indent xs"
| "SerializeJSONObject indent [] = []"
| "SerializeJSONObject indent (kv # kvs) =
     (case SerializeJSONProperty indent (snd kv) of
        None \<Rightarrow> SerializeJSONObject indent kvs
      | Some s \<Rightarrow> (QuoteJSONString (fst kv) @ '': '' @ s) # SerializeJSONObject indent kvs)"

definition JSON_stringify :: "jsval \<Rightarrow> string option" where
  "JSON_stringify v = SerializeJSONProperty [] v"

section \<open>The state store (src/state-manager.js)\<close>

text \<open>
  The store is the module-level object \<open>stateStore\<close>, a dictionary from state tokens to the
  \<open>Date\<close> of their issuance. A \<open>Date\<close> is modelled by its time value, an integer number of
  milliseconds; \<open>new Date() - timestamp\<close> is the difference of the two time values. The token
  drawn by \<open>uuidv4()\<close> and the reading of the clock are inputs of the two functions.

  A \<open>Date\<close> object is always truthy, so \<open>!timestamp\<close> holds exactly when the key has no
  entry. (A key inherited from \<open>Object.prototype\<close>, such as \<open>constructor\<close>, yields a truthy
  value that is no date: the \<open>delete\<close> then removes nothing and the difference is \<open>NaN\<close>, so
  the result is \<open>false\<close> and the store is unchanged, as for an absent key.)
\<close>

definition STATE_TTL_MS :: int where
  "STATE_TTL_MS = 5 * 60 * 1000"

type_synonym state_store = "string \<rightharpoonup> int"

definition generateState :: "string \<Rightarrow> int \<Rightarrow> state_store \<Rightarrow> string \<times> state_store" where
  "generateState uuid now store = (uuid, store(uuid \<mapsto> now))"

definition validateState :: "string \<Rightarrow> int \<Rightarrow> state_store \<Rightarrow> bool \<times> state_store" where
  "validateState state now store =
     (case store state of
        None \<Rightarrow> (False, store)
      | Some timestamp \<Rightarrow> (now - timestamp \<le> STATE_TTL_MS, store(state := None)))"

text \<open>
  A run of the store: any interleaving of \<open>generateState\<close> and \<open>validateState\<close> calls, each with
  the token it draws or is given and the clock reading at the call. The run yields the
  validated tokens with the value returned for each, in call order.
\<close>

datatype store_op = Generate string int | Validate string int

fun run_ops :: "store_op list \<Rightarrow> state_store \<Rightarrow> (string \<times> bool) list" where
  "run_ops [] store = []"
| "run_ops (Generate uuid now # ops) store =
     run_ops ops (snd (generateState uuid now store))"
| "run_ops (Validate state now # ops) store =
     (state, fst (validateState state now store))
       # run_ops ops (snd (validateState state now store))"

definition results_for :: "string \<Rightarrow> (string \<times> bool) list \<Rightarrow> bool list" where
  "results_for state rs = map snd (filter (\<lambda>r. fst r = state) rs)"

fun generates :: "string \<Rightarrow> store_op \<Rightarrow> bool" where
  "generates state (Generate uuid now) = (uuid = state)"
| "generates state (Validate s now) = False"

text \<open>The store that a run leaves, and whether a call is about a given token.\<close>

fun store_after :: "store_op list \<Rightarrow> state_store \<Rightarrow> state_store" where
  "store_after [] store = store"
| "store_after (Generate uuid now # ops) store =
     store_after ops (snd (generateState uuid now store))"
| "store_after (Validate state now # ops) store =
     store_after ops (snd (validateState state now store))"

fun concerns :: "string \<Rightarrow> store_op \<Rightarrow> bool" where
  "concerns state (Generate uuid now) = (uuid = state)"
| "concerns state (Validate s now) = (s = state)"

section \<open>The process, its environment and its effects\<close>

text \<open>
  What the program receives from outside is a parameter of the model. The record
  \<open>runtime\<close> holds the behaviour of the platform and of the libraries: the outcome of the
  \<open>n\<close>-th call of \<open>fetch\<close> (a rejection with an error, or a response), \<open>JSON.parse\<close> as applied
  by \<open>response.json()\<close>, the successive readings of the clock, the successive tokens drawn
  by \<open>uuidv4\<close>, \<open>jwtDecode\<close>, and the input/output error, if any, that the file system
  raises for a write or a directory creation at a path (depending on how many files have
  been written before). The record \<open>config\<close> holds the environment variables
  (\<open>undefined\<close> when unset) and the content of \<open>test-requests.json\<close>, a list of resources with
  optional search parameters.

  The record \<open>world\<close> is the state of the process and the trace of its effects: the state
  store, the two endpoint addresses that \<open>fetchURIs\<close> assigns, the requests given to
  \<open>fetch\<close> in call order, the files written in order with their content, the one trace
  \<open>events\<close> of both in the order in which they happened, the directories that exist below
  the working directory, the numbers of clock readings and of tokens drawn so far, and
  whether \<open>server.close\<close> has been called. What the logger prints is not recorded.
\<close>

record request =
  req_method :: string
  req_url :: string
  req_headers :: "(string \<times> string) list"
  req_body :: "string option"

record response =
  resp_status :: nat
  resp_body :: "js_error + string"

definition ok :: "response \<Rightarrow> bool" where
  "ok r = (200 \<le> resp_status r \<and> resp_status r \<le> 299)"

record runtime =
  fetch_impl :: "nat \<Rightarrow> request \<Rightarrow> js_error + response"
  fs_error :: "nat \<Rightarrow> string \<Rightarrow> js_error option"
  JSON_parse :: "string \<Rightarrow> js_error + jsval"
  clock :: "nat \<Rightarrow> int"
  uuidv4 :: "nat \<Rightarrow> string"
  jwtDecode :: "jsval \<Rightarrow> js_error + jsval"

definition text_of :: "response \<Rightarrow> js_error + string" where
  "text_of r = resp_body r"

definition json_of :: "runtime \<Rightarrow> response \<Rightarrow> js_error + jsval" where
  "json_of rt r = (case resp_body r of Inl e \<Rightarrow> Inl e | Inr s \<Rightarrow> JSON_parse rt s)"

record test_request =
  resource :: jsval
  params :: "(string \<times> jsval) list option"

record config =
  env_EPIC_BASE_URL :: jsval
  env_CLIENT_ID :: jsval
  env_CLIENT_SECRET :: jsval
  env_HOST :: jsval
  env_PORT :: jsval
  env_CALLBACK_PATH :: jsval
  env_INITIALIZATION_PATH :: jsval
  env_SCOPE :: jsval
  env_FETCH_PROFILE :: jsval
  env_FETCH_ADDITIONAL_RESOURCES :: jsval
  env_SHOW_TOKEN_IN_BROWSER :: jsval
  requests :: "test_request list"

datatype event = Fetched request | Wrote string string

record world =
  stateStore :: state_store
  authUri :: jsval
  tokenUri :: jsval
  fetch_log :: "request list"
  writes :: "(string \<times> string) list"
  events :: "event list"
  dirs :: "string list"
  clock_reads :: nat
  uuid_draws :: nat
  server_closed :: bool

text \<open>
  An incoming request is given by what \<open>url.parse(req.url, true)\<close> makes of it: the path
  (\<open>null\<close>, here \<open>None\<close>, when there is none) and the query parameters. The response object
  \<open>res\<close> records the status line and headers stored by \<open>writeHead\<close> and the body given to
  \<open>end\<close>. As in Node.js, \<open>writeHead\<close> throws \<open>ERR_HTTP_HEADERS_SENT\<close> once the headers have
  been stored, and \<open>end\<close> without a preceding \<open>writeHead\<close> sends the status 200.
\<close>

record incoming =
  pathname :: "string option"
  query :: "(string \<times> jsval) list"

record server_response =
  res_status :: "nat option"
  res_headers :: "(string \<times> string) list"
  res_body :: "string option"

definition query_param :: "incoming \<Rightarrow> string \<Rightarrow> jsval" where
  "query_param req k = (case map_of (query req) k of None \<Rightarrow> JUndefined | Some v \<Rightarrow> v)"

definition fresh_response :: server_response where
  "fresh_response = \<lparr>res_status = None, res_headers = [], res_body = None\<rparr>"

definition ERR_HTTP_HEADERS_SENT :: js_error where
  "ERR_HTTP_HEADERS_SENT =
     JsError JUndefined ''Cannot write headers after they are sent to the client''"

definition writeHead ::
  "nat \<Rightarrow> (string \<times> string) list \<Rightarrow> server_response \<Rightarrow> js_error + server_response" where
  "writeHead status hs res =
     (if res_status res \<noteq> None then Inl ERR_HTTP_HEADERS_SENT
      else Inr (res\<lparr>res_status := Some status, res_headers := hs\<rparr>))"

definition res_end :: "string \<Rightarrow> server_response \<Rightarrow> server_response" where
  "res_end data res =
     (if res_body res \<noteq> None then res
      else res\<lparr>res_status := (case res_status res of None \<Rightarrow> Some 200 | Some s \<Rightarrow> Some s),
               res_body := Some data\<rparr>)"

definition fetch :: "runtime \<Rightarrow> request \<Rightarrow> world \<Rightarrow> (js_error + response) \<times> world" where
  "fetch rt r w =
     (fetch_impl rt (length (fetch_log w)) r,
      w\<lparr>fetch_log := fetch_log w @ [r], events := events w @ [Fetched r]\<rparr>)"

definition Date_now :: "runtime \<Rightarrow> world \<Rightarrow> int \<times> world" where
  "Date_now rt w = (clock rt (clock_reads w), w\<lparr>clock_reads := Suc (clock_reads w)\<rparr>)"

text \<open>
  The file system. A path names a file or directory below the working directory \<open>.\<close>,
  which exists; \<open>parent_dir\<close> is the part of a path before its last slash.
  \<open>fs.writeFileSync\<close> throws a \<open>TypeError\<close> when the data is \<open>undefined\<close>, \<open>ENOENT\<close> when
  the directory of the path does not exist, and whatever input/output error the file
  system raises; otherwise the file is written. \<open>fs.mkdirSync\<close> throws \<open>EEXIST\<close> when the
  directory exists, \<open>ENOENT\<close> when its parent does not, and the errors of the file system.
\<close>

definition parent_dir :: "string \<Rightarrow> string" where
  "parent_dir path = rev (drop 1 (dropWhile (\<lambda>c. c \<noteq> CHR ''/'') (rev path)))"

definition dir_exists :: "world \<Rightarrow> string \<Rightarrow> bool" where
  "dir_exists w d = (d = ''.'' \<or> d \<in> set (dirs w))"

definition existsSync :: "string \<Rightarrow> world \<Rightarrow> bool" where
  "existsSync path w = dir_exists w path"

definition ENOENT :: "string \<Rightarrow> js_error" where
  "ENOENT path = JsError JUndefined (''ENOENT: no such file or directory, '' @ path)"

definition EEXIST :: "string \<Rightarrow> js_error" where
  "EEXIST path = JsError JUndefined (''EEXIST: file already exists, '' @ path)"

definition writeFileSync ::
  "runtime \<Rightarrow> string \<Rightarrow> string option \<Rightarrow> world \<Rightarrow> js_error + world" where
  "writeFileSync rt path data w =
     (case data of
        None \<Rightarrow> Inl (JsError JUndefined
                  ''The data argument must be of type string or an instance of Buffer, TypedArray, or DataView. Received undefined'')
      | Some s \<Rightarrow>
          if \<not> dir_exists w (parent_dir path) then Inl (ENOENT path)
          else (case fs_error rt (length (writes w)) path of
                  Some e \<Rightarrow> Inl e
                | None \<Rightarrow> Inr (w\<lparr>writes := writes w @ [(path, s)],
                                  events := events w @ [Wrote path s]\<rparr>)))"

definition mkdirSync :: "runtime \<Rightarrow> string \<Rightarrow> world \<Rightarrow> js_error + world" where
  "mkdirSync rt path w =
     (if dir_exists w path then Inl (EEXIST path)
      else if \<not> dir_exists w (parent_dir path) then Inl (ENOENT path)
      else (case fs_error rt (length (writes w)) path of
              Some e \<Rightarrow> Inl e
            | None \<Rightarrow> Inr (w\<lparr>dirs := dirs w @ [path]\<rparr>)))"

text \<open>
  The two functions of the state store as the process calls them, on the store of the world
  and with the token and the time that the runtime supplies. \<open>validateState\<close> reads the
  clock only when it finds the key.
\<close>

definition generateState_w :: "runtime \<Rightarrow> world \<Rightarrow> string \<times> world" where
  "generateState_w rt w =
     (let (state, store) = generateState (uuidv4 rt (uuid_draws w)) (clock rt (clock_reads w))
                             (stateStore w)
      in (state, w\<lparr>stateStore := store, uuid_draws := Suc (uuid_draws w),
                    clock_reads := Suc (clock_reads w)\<rparr>))"

definition validateState_w :: "runtime \<Rightarrow> jsval \<Rightarrow> world \<Rightarrow> bool \<times> world" where
  "validateState_w rt state w =
     (let (valid, store) = validateState (js_to_string state) (clock rt (clock_reads w))
                             (stateStore w)
      in (valid, w\<lparr>stateStore := store,
                    clock_reads := (if stateStore w (js_to_string state) = None
                                    then clock_reads w else Suc (clock_reads w))\<rparr>))"

section \<open>Configuration (the head of src/oauth.js)\<close>

definition default_to :: "jsval \<Rightarrow> jsval \<Rightarrow> jsval" where
  "default_to d v = (if v = JUndefined then d else v)"

definition CLIENT_SECRET :: "config \<Rightarrow> jsval" where
  "CLIENT_SECRET cfg = default_to JUndefined (env_CLIENT_SECRET cfg)"

definition HOST :: "config \<Rightarrow> jsval" where
  "HOST cfg = default_to (JStr ''localhost'') (env_HOST cfg)"

definition PORT :: "config \<Rightarrow> jsval" where
  "PORT cfg = default_to (JNum 4005) (env_PORT cfg)"

definition SCOPE :: "config \<Rightarrow> jsval" where
  "SCOPE cfg = default_to (JStr ''openid fhirUser profile'') (env_SCOPE cfg)"

definition REDIRECT_URI :: "config \<Rightarrow> string" where
  "REDIRECT_URI cfg =
     ''http://'' @ js_to_string (HOST cfg) @ '':'' @ js_to_string (PORT cfg)
       @ js_to_string (env_CALLBACK_PATH cfg)"

definition FETCH_PROFILE :: "config \<Rightarrow> bool" where
  "FETCH_PROFILE cfg = (env_FETCH_PROFILE cfg = JStr ''true'')"

definition FETCH_ADDITIONAL_RESOURCES :: "config \<Rightarrow> bool" where
  "FETCH_ADDITIONAL_RESOURCES cfg = (env_FETCH_ADDITIONAL_RESOURCES cfg = JStr ''true'')"

definition SHOW_TOKEN_IN_BROWSER :: "config \<Rightarrow> bool" where
  "SHOW_TOKEN_IN_BROWSER cfg = (env_SHOW_TOKEN_IN_BROWSER cfg = JStr ''true'')"

definition RESPONSE_DIRECTORY :: string where
  "RESPONSE_DIRECTORY = ''./responses''"

definition LF :: string where
  "LF = [CHR 0x0A]"

section \<open>The success and home pages (src/pages)\<close>

definition in_template :: "string option \<Rightarrow> string" where
  "in_template s = (case s of None \<Rightarrow> ''undefined'' | Some x \<Rightarrow> x)"

definition reading_of_nullish :: "jsval \<Rightarrow> string \<Rightarrow> js_error" where
  "reading_of_nullish v k =
     JsError JUndefined (''Cannot read properties of '' @ js_to_string v
                         @ '' (reading '' @ [CHR 0x27] @ k @ [CHR 0x27] @ '')'')"

definition successPage :: "runtime \<Rightarrow> config \<Rightarrow> jsval \<Rightarrow> jsval \<Rightarrow> js_error + string" where
  "successPage rt cfg token profile =
     (if nullish token then Inl (reading_of_nullish token ''id_token'')
      else case jwtDecode rt (get_prop token ''id_token'') of
        Inl e \<Rightarrow> Inl e
      | Inr decodedIDToken \<Rightarrow>
          (let tokenHTML = join_with LF
                 [[], ''<h2>Review token below</h2>'', ''<pre>'',
                  in_template (JSON_stringify token), ''</pre>'', [],
                  ''<h3>Decoded ID Token</h3>'', ''<pre>'',
                  in_template (JSON_stringify decodedIDToken), ''</pre>'', []];
               profileHtml = join_with LF
                 [[], ''<h2>Profile Information</h2>'', ''<pre>'',
                  in_template (JSON_stringify profile), ''</pre>'', []]
           in Inr (join_with LF
                 [[], ''<!DOCTYPE html>'', ''<h1>Authentication successful!</h1>'',
                  (if SHOW_TOKEN_IN_BROWSER cfg then tokenHTML else []),
                  (if truthy profile then profileHtml else []), []])))"

definition homePage :: "config \<Rightarrow> string" where
  "homePage cfg = join_with LF
     [[], ''<!DOCTYPE html>'', ''<h1>Welcome!</h1>'',
      ''<p>To authenticate with Epic, please click the button below:</p>'',
      ''<button onclick='' @ [CHR 0x22] @ ''location.href='' @ [CHR 0x27]
         @ js_to_string (env_INITIALIZATION_PATH cfg) @ [CHR 0x27, CHR 0x22] @ ''>'',
      ''Authenticate with Epic'', ''</button>'', []]"

section \<open>The OAuth flow (src/oauth.js)\<close>

text \<open>
  Every function takes the world and returns it updated; a function that can throw returns
  \<open>Inl\<close> of the error thrown, or \<open>Inr\<close> of its result. A function that writes to the
  response object \<open>res\<close> returns it as well.
\<close>

definition secret_entry :: "config \<Rightarrow> (string \<times> jsval) list" where
  "secret_entry cfg =
     (if truthy (CLIENT_SECRET cfg) then [(''secret'', CLIENT_SECRET cfg)] else [])"

definition requestEpicAuthorization ::
  "runtime \<Rightarrow> config \<Rightarrow> server_response \<Rightarrow> incoming \<Rightarrow> world
     \<Rightarrow> (js_error + unit) \<times> server_response \<times> world" where
  "requestEpicAuthorization rt cfg res req w =
     (let launch = query_param req ''launch'';
          iss = query_param req ''iss'';
          scope = (if truthy launch then JStr (js_to_string (SCOPE cfg) @ '' launch'')
                   else SCOPE cfg);
          baseUrl = authUri w
      in case generateState_w rt w of
        (state, w1) \<Rightarrow>
          (let params = URLSearchParams_toString
                 ([(''response_type'', JStr ''code''), (''client_id'', env_CLIENT_ID cfg),
                   (''scope'', scope), (''redirect_uri'', JStr (REDIRECT_URI cfg)),
                   (''state'', JStr state)]
                  @ (if truthy iss then [(''aud'', iss)] else [])
                  @ (if truthy launch then [(''launch'', launch)] else [])
                  @ secret_entry cfg);
               authUrl = js_to_string baseUrl @ ''?'' @ params
           in case writeHead 302 [(''Location'', authUrl)] res of
                Inl e \<Rightarrow> (Inl e, res, w1)
              | Inr res1 \<Rightarrow> (Inr (), res_end [] res1, w1)))"

text \<open>\<open>requestProfile\<close>: a response that is not a success is logged and gives \<open>undefined\<close>.\<close>

definition destructure_of_nullish :: "jsval \<Rightarrow> string \<Rightarrow> string \<Rightarrow> js_error" where
  "destructure_of_nullish v k what =
     JsError JUndefined (''Cannot destructure property '' @ [CHR 0x27] @ k @ [CHR 0x27]
                         @ '' of '' @ [CHR 0x27] @ what @ [CHR 0x27] @ '' as it is ''
                         @ js_to_string v @ ''.'')"

definition profile_request :: "jsval \<Rightarrow> jsval \<Rightarrow> request" where
  "profile_request url access_token =
     \<lparr>req_method = ''GET'', req_url = js_to_string url,
      req_headers = [(''Content-Type'', ''application/x-www-form-urlencoded''),
                     (''Accept'', ''application/json''),
                     (''Authorization'', ''Bearer '' @ js_to_string access_token)],
      req_body = None\<rparr>"

definition requestProfile :: "runtime \<Rightarrow> jsval \<Rightarrow> world \<Rightarrow> (js_error + jsval) \<times> world" where
  "requestProfile rt token w =
     (if nullish token then (Inl (destructure_of_nullish token ''id_token'' ''token''), w)
      else
        let id_token = get_prop token ''id_token'';
            access_token = get_prop token ''access_token''
        in case jwtDecode rt id_token of
             Inl e \<Rightarrow> (Inl e, w)
           | Inr decoded \<Rightarrow>
               if nullish decoded
               then (Inl (destructure_of_nullish decoded ''fhirUser'' ''jwtDecode(...)''), w)
               else
                 let url = get_prop decoded ''fhirUser'' in
                 case fetch rt (profile_request url access_token) w of
                   (Inl e, w1) \<Rightarrow> (Inl e, w1)
                 | (Inr res, w1) \<Rightarrow>
                     if \<not> ok res
                     then (case text_of res of
                             Inl e \<Rightarrow> (Inl e, w1)
                           | Inr t \<Rightarrow> (Inr JUndefined, w1))
                     else (json_of rt res, w1))"

text \<open>
  \<open>testRequests\<close>. \<open>Bluebird.each\<close> calls the function on the elements of \<open>requests\<close> one
  after the other, waiting for the promise of each call; when one call rejects, it rejects
  with that error and calls the function no more. The recursion \<open>testRequests_each\<close> is
  that iteration.
\<close>

definition resource_request :: "config \<Rightarrow> jsval \<Rightarrow> test_request \<Rightarrow> request" where
  "resource_request cfg access_token request =
     (let encodedParams = URLSearchParams_toString
                            (case params request of None \<Rightarrow> [] | Some ps \<Rightarrow> ps);
          url = js_to_string (env_EPIC_BASE_URL cfg) @ ''/'' @ js_to_string (resource request)
                  @ ''?'' @ encodedParams
      in \<lparr>req_method = ''GET'', req_url = url,
          req_headers = [(''Accept'', ''application/json''),
                         (''Authorization'', ''Bearer '' @ js_to_string access_token)],
          req_body = None\<rparr>)"

definition response_file :: "int \<Rightarrow> jsval \<Rightarrow> string" where
  "response_file now res_name =
     RESPONSE_DIRECTORY @ ''/'' @ show_int now @ ''-'' @ js_to_string res_name @ ''.json''"

fun testRequests_each ::
  "runtime \<Rightarrow> config \<Rightarrow> jsval \<Rightarrow> test_request list \<Rightarrow> world \<Rightarrow> (js_error + unit) \<times> world" where
  "testRequests_each rt cfg access_token [] w = (Inr (), w)"
| "testRequests_each rt cfg access_token (request # rest) w =
     (case fetch rt (resource_request cfg access_token request) w of
        (Inl e, w1) \<Rightarrow> (Inl e, w1)
      | (Inr res, w1) \<Rightarrow>
          if \<not> ok res
          then (case text_of res of
                  Inl e \<Rightarrow> (Inl e, w1)
                | Inr t \<Rightarrow> testRequests_each rt cfg access_token rest w1)
          else (case json_of rt res of
                  Inl e \<Rightarrow> (Inl e, w1)
                | Inr jsonRes \<Rightarrow>
                    (case Date_now rt w1 of
                       (now, w2) \<Rightarrow>
                         (case writeFileSync rt (response_file now (resource request))
                                 (JSON_stringify jsonRes) w2 of
                            Inl e \<Rightarrow> (Inl e, w2)
                          | Inr w3 \<Rightarrow> testRequests_each rt cfg access_token rest w3))))"

definition testRequests :: "runtime \<Rightarrow> config \<Rightarrow> jsval \<Rightarrow> world \<Rightarrow> (js_error + unit) \<times> world" where
  "testRequests rt cfg token w =
     (if nullish token then (Inl (destructure_of_nullish token ''access_token'' ''token''), w)
      else
        let access_token = get_prop token ''access_token'' in
        case (if \<not> existsSync RESPONSE_DIRECTORY w then mkdirSync rt RESPONSE_DIRECTORY w
              else Inr w) of
          Inl e \<Rightarrow> (Inl e, w)
        | Inr w1 \<Rightarrow> testRequests_each rt cfg access_token (requests cfg) w1)"

definition token_request :: "config \<Rightarrow> jsval \<Rightarrow> jsval \<Rightarrow> request" where
  "token_request cfg baseUrl code =
     \<lparr>req_method = ''POST'', req_url = js_to_string baseUrl,
      req_headers = [(''Content-Type'', ''application/x-www-form-urlencoded'')],
      req_body = Some (URLSearchParams_toString
         ([(''grant_type'', JStr ''authorization_code''), (''code'', code),
           (''redirect_uri'', JStr (REDIRECT_URI cfg)), (''client_id'', env_CLIENT_ID cfg)]
          @ secret_entry cfg))\<rparr>"

text \<open>
  \<open>exchangeCodeForToken\<close>. The body of its \<open>try\<close> block is \<open>exchange_try\<close>, up to the parsing
  of the token response, followed by \<open>exchange_after_token\<close>; the function itself adds the
  \<open>catch\<close> clause.

  When the state is not valid, the \<open>throw\<close> statement first evaluates the template literal
  of the message, which reads the identifier \<open>state\<close>. No declaration, import or parameter
  of the module binds that name, so the evaluation throws a \<open>ReferenceError\<close> (with the
  message \<open>state is not defined\<close> and no cause) before the \<open>Error\<close> with the cause
  \<open>Invalid State\<close> is constructed.

  \<open>res.writeHead(200, ...).end(successPage(token, profile))\<close> stores the headers first, then
  evaluates \<open>successPage\<close>, then ends the response.
\<close>

definition ReferenceError :: "string \<Rightarrow> js_error" where
  "ReferenceError name = JsError JUndefined (name @ '' is not defined'')"

definition Error_message :: "jsval \<Rightarrow> string" where
  "Error_message m = (if m = JUndefined then [] else js_to_string m)"

definition exchange_after_token ::
  "runtime \<Rightarrow> config \<Rightarrow> jsval \<Rightarrow> server_response \<Rightarrow> world
     \<Rightarrow> (js_error + unit) \<times> server_response \<times> world" where
  "exchange_after_token rt cfg token res w =
     (case writeFileSync rt ''./token.json'' (JSON_stringify token) w of
        Inl e \<Rightarrow> (Inl e, res, w)
      | Inr w1 \<Rightarrow>
          (case (if FETCH_PROFILE cfg then requestProfile rt token w1 else (Inr JUndefined, w1)) of
             (Inl e, w2) \<Rightarrow> (Inl e, res, w2)
           | (Inr profile, w2) \<Rightarrow>
               (case writeHead 200 [(''Content-Type'', ''text/html'')] res of
                  Inl e \<Rightarrow> (Inl e, res, w2)
                | Inr res1 \<Rightarrow>
                    (case successPage rt cfg token profile of
                       Inl e \<Rightarrow> (Inl e, res1, w2)
                     | Inr page \<Rightarrow>
                         if FETCH_ADDITIONAL_RESOURCES cfg
                         then (case testRequests rt cfg token w2 of
                                 (Inl e, w3) \<Rightarrow> (Inl e, res_end page res1, w3)
                               | (Inr u, w3) \<Rightarrow> (Inr (), res_end page res1, w3))
                         else (Inr (), res_end page res1, w2)))))"

definition exchange_try ::
  "runtime \<Rightarrow> config \<Rightarrow> incoming \<Rightarrow> server_response \<Rightarrow> world
     \<Rightarrow> (js_error + unit) \<times> server_response \<times> world" where
  "exchange_try rt cfg req res w =
     (let returnedState = query_param req ''state'';
          code = query_param req ''code'';
          error = query_param req ''error'';
          errorDescription = query_param req ''error_description''
      in case validateState_w rt returnedState w of
        (valid, w1) \<Rightarrow>
          if \<not> valid then (Inl (ReferenceError ''state''), res, w1)
          else if truthy error
            then (Inl (JsError error (Error_message errorDescription)), res, w1)
          else if \<not> truthy code
            then (Inl (JsError (JStr ''Missing code'') ''Missing authorization code''), res, w1)
          else
            (case fetch rt (token_request cfg (tokenUri w1) code) w1 of
               (Inl e, w2) \<Rightarrow> (Inl e, res, w2)
             | (Inr tokenResponse, w2) \<Rightarrow>
                 if \<not> ok tokenResponse
                 then (case text_of tokenResponse of
                         Inl e \<Rightarrow> (Inl e, res, w2)
                       | Inr t \<Rightarrow>
                           (Inl (JsError (JStr ''Failed to get token from Epic'')
                                   (''Token exchange failed: ''
                                      @ show_nat (resp_status tokenResponse) @ '' '' @ t)),
                            res, w2))
                 else (case json_of rt tokenResponse of
                         Inl e \<Rightarrow> (Inl e, res, w2)
                       | Inr token \<Rightarrow> exchange_after_token rt cfg token res w2)))"

definition exchangeCodeForToken ::
  "runtime \<Rightarrow> config \<Rightarrow> incoming \<Rightarrow> server_response \<Rightarrow> world
     \<Rightarrow> (js_error + unit) \<times> server_response \<times> world" where
  "exchangeCodeForToken rt cfg req res w =
     (case exchange_try rt cfg req res w of
        (Inr u, res1, w1) \<Rightarrow> (Inr (), res1, w1)
      | (Inl error, res1, w1) \<Rightarrow>
          (case writeHead 500 [] res1 of
             Inl e \<Rightarrow> (Inl e, res1, w1)
           | Inr res2 \<Rightarrow>
               (Inr (), res_end (js_to_string (cause error) @ '': '' @ message error) res2, w1)))"

section \<open>The server (src/index.js)\<close>

text \<open>
  The request listener. The \<open>switch\<close> compares the path with \<open>===\<close>, in the order of its
  cases. An error thrown by \<open>requestEpicAuthorization\<close> or \<open>exchangeCodeForToken\<close> rejects
  the promise of the listener (\<open>Inl\<close>), and the statements after the \<open>await\<close> do not run.
\<close>

definition path_is :: "string option \<Rightarrow> jsval \<Rightarrow> bool" where
  "path_is p v = (case p of None \<Rightarrow> False | Some s \<Rightarrow> v = JStr s)"

definition server_close :: "world \<Rightarrow> world" where
  "server_close w = w\<lparr>server_closed := True\<rparr>"

definition server_listener ::
  "runtime \<Rightarrow> config \<Rightarrow> incoming \<Rightarrow> server_response \<Rightarrow> world
     \<Rightarrow> (js_error + unit) \<times> server_response \<times> world" where
  "server_listener rt cfg req res w =
     (if pathname req = Some [] \<or> pathname req = Some ''/''
      then (case writeHead 200 [(''Content-Type'', ''text/html'')] res of
              Inl e \<Rightarrow> (Inl e, res, w)
            | Inr res1 \<Rightarrow> (Inr (), res_end (homePage cfg) res1, w))
      else if path_is (pathname req) (env_INITIALIZATION_PATH cfg)
      then requestEpicAuthorization rt cfg res req w
      else
        (case (if path_is (pathname req) (env_CALLBACK_PATH cfg)
               then exchangeCodeForToken rt cfg req res w
               else (case writeHead 404 [] res of
                       Inl e \<Rightarrow> (Inl e, res, w)
                     | Inr res1 \<Rightarrow> (Inr (), res_end ''Not Found'' res1, w))) of
           (Inl e, res1, w1) \<Rightarrow> (Inl e, res1, w1)
         | (Inr u, res1, w1) \<Rightarrow> (Inr (), res1, server_close w1)))"

section \<open>Notions used to state the properties\<close>

text \<open>
  The outcomes that the runtime gives to the fetches of the configured resources, when they
  are issued in configured order and the first of them is the \<open>n\<close>-th fetch of the process;
  \<open>resource_outcomes\<close> pairs every configured resource with the outcome of its fetch when
  \<open>testRequests\<close> starts in the world \<open>w\<close>.
\<close>

fun outcomes ::
  "runtime \<Rightarrow> config \<Rightarrow> jsval \<Rightarrow> nat \<Rightarrow> test_request list \<Rightarrow> (js_error + response) list" where
  "outcomes rt cfg access_token n [] = []"
| "outcomes rt cfg access_token n (request # rest) =
     fetch_impl rt n (resource_request cfg access_token request)
       # outcomes rt cfg access_token (Suc n) rest"

definition resource_outcomes ::
  "runtime \<Rightarrow> config \<Rightarrow> jsval \<Rightarrow> world \<Rightarrow> (test_request \<times> (js_error + response)) list" where
  "resource_outcomes rt cfg token w =
     zip (requests cfg)
       (outcomes rt cfg (get_prop token ''access_token'') (length (fetch_log w)) (requests cfg))"

text \<open>
  A fetch settles when its promise resolves with a response whose body can then be read:
  as text when the status is not a success, as JSON when it is.
\<close>

definition settles :: "runtime \<Rightarrow> js_error + response \<Rightarrow> bool" where
  "settles rt out =
     (case out of
        Inl e \<Rightarrow> False
      | Inr res \<Rightarrow>
          if ok res
          then (case json_of rt res of Inl e \<Rightarrow> False | Inr v \<Rightarrow> v \<noteq> JUndefined)
          else (case text_of res of Inl e \<Rightarrow> False | Inr t \<Rightarrow> True))"

definition succeeded :: "js_error + response \<Rightarrow> bool" where
  "succeeded out = (case out of Inl e \<Rightarrow> False | Inr res \<Rightarrow> ok res)"

definition persisted_content :: "runtime \<Rightarrow> js_error + response \<Rightarrow> string" where
  "persisted_content rt out =
     (case out of
        Inl e \<Rightarrow> []
      | Inr res \<Rightarrow>
          (case json_of rt res of Inl e \<Rightarrow> [] | Inr v \<Rightarrow> in_template (JSON_stringify v)))"

text \<open>
  The files that the responses with a success status are to be written to, with their
  content: the \<open>k\<close>-th reading of the clock names the first of them. \<open>planned_events\<close> is the
  trace expected of the whole iteration: the fetch of every resource, followed at once by
  the write of its file when the response is a success, before the fetch of the next one.
\<close>

fun planned_writes ::
  "runtime \<Rightarrow> nat \<Rightarrow> (test_request \<times> (js_error + response)) list \<Rightarrow> (string \<times> string) list" where
  "planned_writes rt k [] = []"
| "planned_writes rt k (ro # rest) =
     (if succeeded (snd ro)
      then (response_file (clock rt k) (resource (fst ro)), persisted_content rt (snd ro))
             # planned_writes rt (Suc k) rest
      else planned_writes rt k rest)"

fun planned_events ::
  "runtime \<Rightarrow> config \<Rightarrow> jsval \<Rightarrow> nat \<Rightarrow> (test_request \<times> (js_error + response)) list
     \<Rightarrow> event list" where
  "planned_events rt cfg access_token k [] = []"
| "planned_events rt cfg access_token k (ro # rest) =
     Fetched (resource_request cfg access_token (fst ro))
       # (if succeeded (snd ro)
          then Wrote (response_file (clock rt k) (resource (fst ro))) (persisted_content rt (snd ro))
                 # planned_events rt cfg access_token (Suc k) rest
          else planned_events rt cfg access_token k rest)"

text \<open>
  The files at the given paths can be written one after the other, the first of them as
  the \<open>n\<close>-th file of the process: the directory of each exists (it is the working directory
  or one of \<open>ds\<close>) and the file system raises no error.
\<close>

fun all_writable :: "runtime \<Rightarrow> string list \<Rightarrow> nat \<Rightarrow> string list \<Rightarrow> bool" where
  "all_writable rt ds n [] = True"
| "all_writable rt ds n (path # paths) =
     (fs_error rt n path = None
      \<and> (parent_dir path = ''.'' \<or> parent_dir path \<in> set ds)
      \<and> all_writable rt ds (Suc n) paths)"

text \<open>
  A step of the flow after the token request only adds \<open>GET\<close> requests to the log of
  fetches, only adds to the files written, and leaves the server as it is.
\<close>

definition grows :: "world \<Rightarrow> world \<Rightarrow> bool" where
  "grows w w' =
     ((\<exists>gets. fetch_log w' = fetch_log w @ gets \<and> list_all (\<lambda>r. req_method r = ''GET'') gets)
      \<and> (\<exists>ws. writes w' = writes w @ ws)
      \<and> server_closed w' = server_closed w)"

section \<open>A concrete configuration, runtime and callback\<close>

text \<open>
  The configuration of the examples: the defaults for host, port and scope, no client
  secret, the two optional fetches switched off. The world has one pending state token
  \<open>s1\<close>, issued at time 1000, and the endpoint addresses of the metadata. The token endpoint
  answers the first fetch with status 200 and a compact JSON body; every later fetch is
  rejected (a network failure); the file system raises no input/output error. The
  identity token of the body is a JWT whose payload
  decodes to \<open>{"fhirUser":"https://fhir.example/api/Patient/1"}\<close>.
\<close>

definition ex_cfg :: config where
  "ex_cfg = \<lparr>env_EPIC_BASE_URL = JStr ''https://fhir.example/api'',
             env_CLIENT_ID = JStr ''client-1'',
             env_CLIENT_SECRET = JUndefined,
             env_HOST = JUndefined, env_PORT = JUndefined,
             env_CALLBACK_PATH = JStr ''/cb'',
             env_INITIALIZATION_PATH = JStr ''/init'',
             env_SCOPE = JUndefined,
             env_FETCH_PROFILE = JStr ''false'',
             env_FETCH_ADDITIONAL_RESOURCES = JStr ''false'',
             env_SHOW_TOKEN_IN_BROWSER = JUndefined,
             requests = []\<rparr>"

definition ex_world :: world where
  "ex_world = \<lparr>stateStore = [''s1'' \<mapsto> 1000], authUri = JStr ''https://fhir.example/auth'',
               tokenUri = JStr ''https://fhir.example/token'', fetch_log = [], writes = [],
               events = [], dirs = [], clock_reads = 0, uuid_draws = 1, server_closed = False\<rparr>"

definition ex_id_token :: string where
  "ex_id_token = ''e30.eyJmaGlyVXNlciI6Imh0dHBzOi8vZmhpci5leGFtcGxlL2FwaS9QYXRpZW50LzEifQ.sig''"

definition ex_token_body :: string where
  "ex_token_body = ''{'' @ [CHR 0x22] @ ''access_token'' @ [CHR 0x22] @ '':''
                     @ [CHR 0x22] @ ''tok'' @ [CHR 0x22] @ '',''
                     @ [CHR 0x22] @ ''id_token'' @ [CHR 0x22] @ '':''
                     @ [CHR 0x22] @ ex_id_token @ [CHR 0x22] @ ''}''"

definition ex_token :: jsval where
  "ex_token = JObj [(''access_token'', JStr ''tok''), (''id_token'', JStr ex_id_token)]"

definition ex_parse :: "string \<Rightarrow> js_error + jsval" where
  "ex_parse s =
     (if s = ex_token_body then Inr ex_token
      else if s = ''{}'' then Inr (JObj [])
      else Inl (JsError JUndefined ''Unexpected token''))"

definition ex_jwtDecode :: "jsval \<Rightarrow> js_error + jsval" where
  "ex_jwtDecode v =
     (if v = JStr ex_id_token
      then Inr (JObj [(''fhirUser'', JStr ''https://fhir.example/api/Patient/1'')])
      else Inl (JsError JUndefined ''Invalid token specified''))"

definition fetch_failed :: js_error where
  "fetch_failed = JsError JUndefined ''fetch failed''"

definition ex_rt :: runtime where
  "ex_rt = \<lparr>fetch_impl =
              (\<lambda>n r. if n = 0 then Inr \<lparr>resp_status = 200, resp_body = Inr ex_token_body\<rparr>
                     else Inl fetch_failed),
            fs_error = (\<lambda>n path. None),
            JSON_parse = ex_parse,
            clock = (\<lambda>n. 2000 + int n),
            uuidv4 = (\<lambda>n. ''s'' @ show_nat (Suc n)),
            jwtDecode = ex_jwtDecode\<rparr>"

definition ex_req :: incoming where
  "ex_req = \<lparr>pathname = Some ''/cb'',
             query = [(''state'', JStr ''s1''), (''code'', JStr ''abc'')]\<rparr>"

definition ex_patient :: test_request where
  "ex_patient = \<lparr>resource = JStr ''Patient'', params = Some [(''identifier'', JStr ''p1'')]\<rparr>"

definition ex_appointment :: test_request where
  "ex_appointment =
     \<lparr>resource = JStr ''Appointment'', params = Some [(''patient'', JStr ''p1'')]\<rparr>"

definition ex_observation :: test_request where
  "ex_observation = \<lparr>resource = JStr ''Observation'', params = None\<rparr>"

definition ex_slash :: test_request where
  "ex_slash = \<lparr>resource = JStr ''Patient/p1'', params = None\<rparr>"

definition ex_requests :: "test_request list" where
  "ex_requests = [ex_patient, ex_appointment, ex_observation]"

definition ex_token_file :: string where
  "ex_token_file = join_with LF
     [''{'',
      ''  '' @ [CHR 0x22] @ ''access_token'' @ [CHR 0x22] @ '': '' @ [CHR 0x22] @ ''tok''
         @ [CHR 0x22] @ '','',
      ''  '' @ [CHR 0x22] @ ''id_token'' @ [CHR 0x22] @ '': '' @ [CHR 0x22] @ ex_id_token
         @ [CHR 0x22],
      ''}'']"

definition not_found :: response where
  "not_found = \<lparr>resp_status = 404, resp_body = Inr ''Not Found''\<rparr>"

definition empty_bundle :: response where
  "empty_bundle = \<lparr>resp_status = 200, resp_body = Inr ''{}''\<rparr>"

definition ex_rt_profile_404 :: runtime where
  "ex_rt_profile_404 =
     ex_rt\<lparr>fetch_impl :=
              (\<lambda>n r. if n = 0 then Inr \<lparr>resp_status = 200, resp_body = Inr ex_token_body\<rparr>
                     else Inr not_found)\<rparr>"

definition ex_rt_second_404 :: runtime where
  "ex_rt_second_404 =
     ex_rt\<lparr>fetch_impl := (\<lambda>n r. if n = 1 then Inr not_found else Inr empty_bundle)\<rparr>"

definition ex_rt_second_rejected :: runtime where
  "ex_rt_second_rejected =
     ex_rt\<lparr>fetch_impl := (\<lambda>n r. if n = 1 then Inl fetch_failed else Inr empty_bundle)\<rparr>"

definition ex_cfg_resources :: config where
  "ex_cfg_resources =
     ex_cfg\<lparr>env_FETCH_ADDITIONAL_RESOURCES := JStr ''true'', requests := ex_requests\<rparr>"

definition ex_cfg_profile :: config where
  "ex_cfg_profile = ex_cfg\<lparr>env_FETCH_PROFILE := JStr ''true''\<rparr>"

definition ex_cfg_slash :: config where
  "ex_cfg_slash =
     ex_cfg\<lparr>env_FETCH_ADDITIONAL_RESOURCES := JStr ''true'',
            requests := [ex_slash, ex_observation]\<rparr>"

definition ex_rt_all_ok :: runtime where
  "ex_rt_all_ok = ex_rt\<lparr>fetch_impl := (\<lambda>n r. Inr empty_bundle)\<rparr>"

definition disk_full :: js_error where
  "disk_full = JsError JUndefined ''ENOSPC: no space left on device, write''"

definition ex_rt_disk_full :: runtime where
  "ex_rt_disk_full = ex_rt\<lparr>fs_error := (\<lambda>n path. Some disk_full)\<rparr>"

section \<open>Properties of the state store\<close>

lemma validateState_absent:
  "store state = None \<Longrightarrow> validateState state now store = (False, store)"
  by (simp add: validateState_def)

lemma validateState_consumes:
  "snd (validateState state now store) state = None"
  by (simp add: validateState_def split: option.splits)

lemma validateState_other:
  "s \<noteq> state \<Longrightarrow> snd (validateState state now store) s = store s"
  by (simp add: validateState_def split: option.splits)

lemma generateState_other:
  "s \<noteq> uuid \<Longrightarrow> snd (generateState uuid now store) s = store s"
  by (simp add: generateState_def)

lemma absent_all_false:
  "store state = None \<Longrightarrow> \<forall>op \<in> set ops. \<not> generates state op \<Longrightarrow>
   \<forall>b \<in> set (results_for state (run_ops ops store)). \<not> b"
proof (induction ops arbitrary: store)
  case Nil
  show ?case by (simp add: results_for_def)
next
  case (Cons op ops)
  show ?case
  proof (cases op)
    case (Generate uuid now)
    with Cons.prems have ne: "state \<noteq> uuid" by auto
    have "snd (generateState uuid now store) state = None"
      using ne Cons.prems(1) by (simp add: generateState_other)
    with Cons.IH [of "snd (generateState uuid now store)"] Cons.prems(2) Generate
    show ?thesis by simp
  next
    case (Validate s now)
    have absent: "snd (validateState s now store) state = None"
    proof (cases "s = state")
      case True
      then show ?thesis by (simp add: validateState_consumes)
    next
      case False
      then have "state \<noteq> s" by simp
      then show ?thesis using Cons.prems(1) by (simp add: validateState_other)
    qed
    have rest: "\<forall>b \<in> set (results_for state (run_ops ops (snd (validateState s now store)))). \<not> b"
      using Cons.IH [of "snd (validateState s now store)"] absent Cons.prems(2) by simp
    have here: "s = state \<Longrightarrow> \<not> fst (validateState s now store)"
      using Cons.prems(1) by (simp add: validateState_absent)
    show ?thesis using Validate rest here by (auto simp: results_for_def)
  qed
qed

lemma single_use_any_store:
  "\<forall>op \<in> set ops. \<not> generates state op \<Longrightarrow>
   \<forall>b \<in> set (tl (results_for state (run_ops ops store))). \<not> b"
proof (induction ops arbitrary: store)
  case Nil
  show ?case by (simp add: results_for_def)
next
  case (Cons op ops)
  show ?case
  proof (cases op)
    case (Generate uuid now)
    from Cons.IH [of "snd (generateState uuid now store)"] Cons.prems Generate
    show ?thesis by simp
  next
    case (Validate s now)
    show ?thesis
    proof (cases "s = state")
      case True
      have "snd (validateState s now store) state = None"
        using True by (simp add: validateState_consumes)
      with absent_all_false [of "snd (validateState s now store)" state ops] Cons.prems
      have "\<forall>b \<in> set (results_for state (run_ops ops (snd (validateState s now store)))). \<not> b"
        by simp
      then show ?thesis using Validate True by (simp add: results_for_def)
    next
      case False
      from Cons.IH [of "snd (validateState s now store)"] Cons.prems
      have "\<forall>b \<in> set (tl (results_for state (run_ops ops (snd (validateState s now store))))). \<not> b"
        by simp
      then show ?thesis using Validate False by (simp add: results_for_def)
    qed
  qed
qed

lemma tl_false_count:
  "\<forall>b \<in> set (tl bs). \<not> b \<Longrightarrow> length (filter (\<lambda>b. b) bs) \<le> 1"
proof (cases bs)
  case Nil
  then show ?thesis by simp
next
  case (Cons b bs')
  assume "\<forall>b \<in> set (tl bs). \<not> b"
  with Cons have "filter (\<lambda>b. b) bs' = []" by (simp add: filter_empty_conv)
  with Cons show ?thesis by simp
qed

lemma store_after_untouched:
  "\<not> list_ex (concerns state) ops \<Longrightarrow> store_after ops store state = store state"
proof (induction ops arbitrary: store)
  case Nil
  show ?case by simp
next
  case (Cons op ops)
  show ?case
  proof (cases op)
    case (Generate uuid now)
    with Cons.prems have "state \<noteq> uuid" "\<not> list_ex (concerns state) ops" by auto
    with Cons.IH [of "snd (generateState uuid now store)"] Generate show ?thesis
      by (simp add: generateState_other)
  next
    case (Validate s now)
    with Cons.prems have "state \<noteq> s" "\<not> list_ex (concerns state) ops" by auto
    with Cons.IH [of "snd (validateState s now store)"] Validate show ?thesis
      by (simp add: validateState_other)
  qed
qed

text \<open>
  Claim C2. Take a token returned by \<open>generateState\<close> and let any sequence of further store
  calls follow in which \<open>uuidv4\<close> does not draw that token again. Then, of the values that
  \<open>validateState\<close> returns for that token, every one after the first is \<open>false\<close>, whatever the
  clock readings are, and so at most one of them is \<open>true\<close>.
\<close>

theorem validateState_single_use:
  assumes "\<not> list_ex (generates state) ops"
  shows "list_all (\<lambda>b. \<not> b) (tl (results_for state
                          (run_ops (Generate state t0 # ops) store)))
       \<and> length (filter (\<lambda>b. b) (results_for state
                          (run_ops (Generate state t0 # ops) store))) \<le> 1"
proof -
  from assms have fresh: "\<forall>op \<in> set ops. \<not> generates state op"
    by (simp add: list_ex_iff)
  have later: "\<forall>b \<in> set (tl (results_for state
                 (run_ops ops (snd (generateState state t0 store))))). \<not> b"
    using fresh by (rule single_use_any_store)
  then have "length (filter (\<lambda>b. b) (results_for state
                 (run_ops ops (snd (generateState state t0 store))))) \<le> 1"
    by (rule tl_false_count)
  with later show ?thesis by (simp add: list_all_iff)
qed

theorem validateState_single_use_witness:
  "\<not> list_ex (generates ''a'') [Validate ''a'' 100, Validate ''b'' 150, Validate ''a'' 200,
                 Generate ''b'' 250, Validate ''a'' 300]
   \<and> results_for ''a'' (run_ops (Generate ''a'' 0 #
        [Validate ''a'' 100, Validate ''b'' 150, Validate ''a'' 200,
         Generate ''b'' 250, Validate ''a'' 300]) Map.empty) = [True, False, False]
   \<and> list_all (\<lambda>b. \<not> b) (tl (results_for ''a'' (run_ops (Generate ''a'' 0 #
        [Validate ''a'' 100, Validate ''b'' 150, Validate ''a'' 200,
         Generate ''b'' 250, Validate ''a'' 300]) Map.empty)))"
proof -
  have h: "\<not> list_ex (generates ''a'') [Validate ''a'' 100, Validate ''b'' 150,
                 Validate ''a'' 200, Generate ''b'' 250, Validate ''a'' 300]"
    by simp
  have r: "results_for ''a'' (run_ops (Generate ''a'' 0 #
        [Validate ''a'' 100, Validate ''b'' 150, Validate ''a'' 200,
         Generate ''b'' 250, Validate ''a'' 300]) Map.empty) = [True, False, False]"
    by (simp add: results_for_def generateState_def validateState_def STATE_TTL_MS_def)
  from validateState_single_use [OF h, of 0 Map.empty] h r show ?thesis by blast
qed

text \<open>
  Claim C9. The bound of the time to live is inclusive. Let a token be issued and then
  validated for the first time, after any store calls about other tokens: the validation
  returns \<open>true\<close> exactly when the time elapsed since issuance is at most the 300000
  milliseconds of \<open>STATE_TTL_MS\<close>, so also when it is equal to them, and \<open>false\<close> only when
  strictly more has elapsed.
\<close>

theorem validateState_ttl_inclusive:
  assumes "\<not> list_ex (concerns state) ops"
  shows "fst (validateState state now (store_after ops (snd (generateState state t0 store))))
           = (now - t0 \<le> 300000)"
proof -
  have "store_after ops (snd (generateState state t0 store)) state = Some t0"
    using store_after_untouched [OF assms] by (simp add: generateState_def)
  then show ?thesis by (simp add: validateState_def STATE_TTL_MS_def)
qed

theorem validateState_ttl_inclusive_witness:
  "\<not> list_ex (concerns ''a'') [Generate ''b'' 5, Validate ''b'' 7, Validate ''c'' 9]
   \<and> fst (validateState ''a'' 300000
            (store_after [Generate ''b'' 5, Validate ''b'' 7, Validate ''c'' 9]
               (snd (generateState ''a'' 0 Map.empty)))) = True
   \<and> fst (validateState ''a'' 300001
            (store_after [Generate ''b'' 5, Validate ''b'' 7, Validate ''c'' 9]
               (snd (generateState ''a'' 0 Map.empty)))) = False"
proof -
  have h: "\<not> list_ex (concerns ''a'') [Generate ''b'' 5, Validate ''b'' 7, Validate ''c'' 9]"
    by simp
  from validateState_ttl_inclusive [OF h, of 300000 0 Map.empty]
       validateState_ttl_inclusive [OF h, of 300001 0 Map.empty] h
  show ?thesis by simp
qed

text \<open>
  Claim C5. When more than the five minutes of \<open>STATE_TTL_MS\<close> have elapsed between
  \<open>generateState\<close> and the first \<open>validateState\<close> of the token, the validation returns
  \<open>false\<close> although the token was never validated before (and the token is consumed).
\<close>

theorem validateState_expired:
  assumes "\<not> list_ex (concerns state) ops" and "now - t0 > 5 * 60 * 1000"
  shows "validateState state now (store_after ops (snd (generateState state t0 store)))
           = (False, (store_after ops (snd (generateState state t0 store)))(state := None))"
proof -
  have "store_after ops (snd (generateState state t0 store)) state = Some t0"
    using store_after_untouched [OF assms(1)] by (simp add: generateState_def)
  then show ?thesis using assms(2) by (simp add: validateState_def STATE_TTL_MS_def)
qed

theorem validateState_expired_witness:
  "\<not> list_ex (concerns ''a'') [Generate ''b'' 5, Validate ''b'' 7]
   \<and> (300001::int) - 0 > 5 * 60 * 1000
   \<and> fst (validateState ''a'' 300001
            (store_after [Generate ''b'' 5, Validate ''b'' 7]
               (snd (generateState ''a'' 0 Map.empty)))) = False"
proof -
  have h: "\<not> list_ex (concerns ''a'') [Generate ''b'' 5, Validate ''b'' 7]" by simp
  have t: "(300001::int) - 0 > 5 * 60 * 1000" by simp
  from validateState_expired [OF h t, of Map.empty] h t show ?thesis by simp
qed

section \<open>Properties of the token exchange\<close>

subsection \<open>The steps of the flow and their effects\<close>

lemma validateState_w_result:
  "fst (validateState_w rt s w) =
     (case stateStore w (js_to_string s) of
        None \<Rightarrow> False
      | Some t \<Rightarrow> clock rt (clock_reads w) - t \<le> STATE_TTL_MS)"
  by (simp add: validateState_w_def validateState_def split: option.splits)

lemma validateState_w_keeps [simp]:
  "fetch_log (snd (validateState_w rt s w)) = fetch_log w"
  "writes (snd (validateState_w rt s w)) = writes w"
  "events (snd (validateState_w rt s w)) = events w"
  "tokenUri (snd (validateState_w rt s w)) = tokenUri w"
  "dirs (snd (validateState_w rt s w)) = dirs w"
  "server_closed (snd (validateState_w rt s w)) = server_closed w"
  by (simp_all add: validateState_w_def validateState_def split: option.splits)

lemma fetch_effects [simp]:
  "fst (fetch rt r w) = fetch_impl rt (length (fetch_log w)) r"
  "fetch_log (snd (fetch rt r w)) = fetch_log w @ [r]"
  "writes (snd (fetch rt r w)) = writes w"
  "events (snd (fetch rt r w)) = events w @ [Fetched r]"
  "dirs (snd (fetch rt r w)) = dirs w"
  "clock_reads (snd (fetch rt r w)) = clock_reads w"
  "server_closed (snd (fetch rt r w)) = server_closed w"
  by (simp_all add: fetch_def)

lemma Date_now_effects [simp]:
  "fst (Date_now rt w) = clock rt (clock_reads w)"
  "fetch_log (snd (Date_now rt w)) = fetch_log w"
  "writes (snd (Date_now rt w)) = writes w"
  "events (snd (Date_now rt w)) = events w"
  "dirs (snd (Date_now rt w)) = dirs w"
  "clock_reads (snd (Date_now rt w)) = Suc (clock_reads w)"
  "server_closed (snd (Date_now rt w)) = server_closed w"
  by (simp_all add: Date_now_def)

lemma writeFileSync_Inr:
  assumes "writeFileSync rt path data w = Inr w'"
  shows "\<exists>s. data = Some s
           \<and> w' = w\<lparr>writes := writes w @ [(path, s)], events := events w @ [Wrote path s]\<rparr>"
  using assms by (auto simp: writeFileSync_def split: option.splits if_splits)

lemma writeFileSync_succeeds:
  assumes "fs_error rt (length (writes w)) path = None"
    and "parent_dir path = ''.'' \<or> parent_dir path \<in> set (dirs w)"
  shows "writeFileSync rt path (Some s) w
           = Inr (w\<lparr>writes := writes w @ [(path, s)], events := events w @ [Wrote path s]\<rparr>)"
  using assms by (simp add: writeFileSync_def dir_exists_def)

lemma mkdirSync_Inr:
  assumes "mkdirSync rt path w = Inr w'"
  shows "w' = w\<lparr>dirs := dirs w @ [path]\<rparr>"
  using assms by (auto simp: mkdirSync_def split: option.splits if_splits)

lemma parent_of_token_file [simp]: "parent_dir ''./token.json'' = ''.''"
  by (simp add: parent_dir_def)

lemma exchange_world:
  "snd (snd (exchangeCodeForToken rt cfg req res w)) = snd (snd (exchange_try rt cfg req res w))"
  by (simp add: exchangeCodeForToken_def split: prod.splits sum.splits)

lemma exchange_try_invalid:
  assumes "\<not> fst (validateState_w rt (query_param req ''state'') w)"
  shows "exchange_try rt cfg req res w =
           (Inl (ReferenceError ''state''), res, snd (validateState_w rt (query_param req ''state'') w))"
  using assms by (simp add: exchange_try_def Let_def case_prod_beta)

lemma exchange_try_proceeds:
  assumes "fst (validateState_w rt (query_param req ''state'') w)"
    and "\<not> truthy (query_param req ''error'')"
    and "truthy (query_param req ''code'')"
  shows "exchange_try rt cfg req res w =
     (let w1 = snd (validateState_w rt (query_param req ''state'') w);
          posted = token_request cfg (tokenUri w) (query_param req ''code'');
          w2 = w1\<lparr>fetch_log := fetch_log w @ [posted], events := events w @ [Fetched posted]\<rparr>
      in case fetch_impl rt (length (fetch_log w)) posted of
           Inl e \<Rightarrow> (Inl e, res, w2)
         | Inr tokenResponse \<Rightarrow>
             if \<not> ok tokenResponse
             then (case text_of tokenResponse of
                     Inl e \<Rightarrow> (Inl e, res, w2)
                   | Inr t \<Rightarrow>
                       (Inl (JsError (JStr ''Failed to get token from Epic'')
                               (''Token exchange failed: ''
                                  @ show_nat (resp_status tokenResponse) @ '' '' @ t)),
                        res, w2))
             else (case json_of rt tokenResponse of
                     Inl e \<Rightarrow> (Inl e, res, w2)
                   | Inr token \<Rightarrow> exchange_after_token rt cfg token res w2))"
  using assms
  by (simp add: exchange_try_def Let_def case_prod_beta fetch_def split: sum.splits)

lemma catch_fresh:
  assumes "exchange_try rt cfg req res w = (Inl e, res1, w1)" and "res_status res1 = None"
    and "res_body res1 = None"
  shows "exchangeCodeForToken rt cfg req res w =
           (Inr (), res1\<lparr>res_status := Some 500, res_headers := [],
                        res_body := Some (js_to_string (cause e) @ '': '' @ message e)\<rparr>, w1)"
  using assms by (simp add: exchangeCodeForToken_def writeHead_def res_end_def)

lemma exchange_response_after_end:
  assumes "exchange_try rt cfg req res w = (out, res1, w1)" and "res_status res1 = Some 200"
  shows "fst (snd (exchangeCodeForToken rt cfg req res w)) = res1"
  using assms by (cases out) (simp_all add: exchangeCodeForToken_def writeHead_def)

lemma JSON_stringify_defined: "v \<noteq> JUndefined \<Longrightarrow> \<exists>s. JSON_stringify v = Some s"
  by (cases v) (simp_all add: JSON_stringify_def)

text \<open>
  Every request after the one to the token endpoint is a \<open>GET\<close>, the log of the files
  written only grows, and nothing but the listener closes the server.
\<close>

lemma grows_refl [simp]: "grows w w"
  by (simp add: grows_def)

lemma grows_trans: "grows w w1 \<Longrightarrow> grows w1 w2 \<Longrightarrow> grows w w2"
  by (auto simp: grows_def)

lemma grows_fetch:
  "req_method r = ''GET'' \<Longrightarrow> grows w (snd (fetch rt r w))"
  by (simp add: grows_def)

lemma grows_Date_now [simp]: "grows w (snd (Date_now rt w))"
  by (simp add: grows_def)

lemma grows_write: "writeFileSync rt path data w = Inr w' \<Longrightarrow> grows w w'"
  by (auto simp: grows_def dest!: writeFileSync_Inr)

lemma grows_mkdir: "mkdirSync rt path w = Inr w' \<Longrightarrow> grows w w'"
  by (auto simp: grows_def dest!: mkdirSync_Inr)

lemma requestProfile_grows: "grows w (snd (requestProfile rt token w))"
  by (auto simp: requestProfile_def Let_def profile_request_def case_prod_beta
        intro!: grows_fetch split: sum.splits)

lemma requestProfile_writes [simp]:
  "writes (snd (requestProfile rt token w)) = writes w"
  by (auto simp: requestProfile_def Let_def case_prod_beta split: sum.splits)

lemma each_grows: "grows w (snd (testRequests_each rt cfg at reqs w))"
proof (induction reqs arbitrary: w)
  case Nil
  show ?case by simp
next
  case (Cons request rest)
  let ?r = "resource_request cfg at request"
  let ?w1 = "snd (fetch rt ?r w)"
  let ?w2 = "snd (Date_now rt ?w1)"
  have "req_method ?r = ''GET''" by (simp add: resource_request_def Let_def)
  then have w1: "grows w ?w1" by (rule grows_fetch)
  then have w2: "grows w ?w2" using grows_trans grows_Date_now by blast
  have rest1: "grows w (snd (testRequests_each rt cfg at rest ?w1))"
    using grows_trans [OF w1 Cons.IH] .
  have rest3: "\<And>p d w3. writeFileSync rt p d ?w2 = Inr w3
                 \<Longrightarrow> grows w (snd (testRequests_each rt cfg at rest w3))"
    using grows_trans [OF grows_trans [OF w2 grows_write] Cons.IH] by blast
  show ?case
    using w1 w2 rest1 rest3
    by (auto simp: case_prod_beta split: sum.splits)
qed

lemma testRequests_grows: "grows w (snd (testRequests rt cfg token w))"
  using each_grows grows_trans [OF grows_mkdir each_grows]
  by (auto simp: testRequests_def Let_def split: sum.splits if_splits)

lemma after_token_grows: "grows w (snd (snd (exchange_after_token rt cfg token res w)))"
proof (cases "writeFileSync rt ''./token.json'' (JSON_stringify token) w")
  case (Inl e)
  then show ?thesis by (simp add: exchange_after_token_def)
next
  case (Inr w1)
  let ?p = "if FETCH_PROFILE cfg then requestProfile rt token w1 else (Inr JUndefined, w1)"
  have w1: "grows w w1" using Inr by (rule grows_write)
  have "grows w1 (snd ?p)" using requestProfile_grows by simp
  with w1 have p: "grows w (snd ?p)" by (rule grows_trans)
  then have t: "grows w (snd (testRequests rt cfg token (snd ?p)))"
    using testRequests_grows grows_trans by blast
  have either: "snd (snd (exchange_after_token rt cfg token res w)) = snd ?p
        \<or> snd (snd (exchange_after_token rt cfg token res w)) = snd (testRequests rt cfg token (snd ?p))"
    using Inr
    by (simp add: exchange_after_token_def case_prod_beta split: sum.splits if_splits)
  with p t show ?thesis by auto
qed

lemma after_token_writes:
  assumes "JSON_stringify token = Some content"
    and "fs_error rt (length (writes w)) ''./token.json'' = None"
  shows "\<exists>rest. writes (snd (snd (exchange_after_token rt cfg token res w)))
                  = writes w @ (''./token.json'', content) # rest"
proof -
  let ?w1 = "w\<lparr>writes := writes w @ [(''./token.json'', content)],
               events := events w @ [Wrote ''./token.json'' content]\<rparr>"
  let ?p = "if FETCH_PROFILE cfg then requestProfile rt token ?w1 else (Inr JUndefined, ?w1)"
  have written: "writeFileSync rt ''./token.json'' (JSON_stringify token) w = Inr ?w1"
    using assms by (simp add: writeFileSync_succeeds)
  have p: "writes (snd ?p) = writes w @ [(''./token.json'', content)]" by simp
  from testRequests_grows [of "snd ?p" rt cfg token] obtain ws where
    ws: "writes (snd (testRequests rt cfg token (snd ?p))) = writes (snd ?p) @ ws"
    by (auto simp: grows_def)
  have either: "snd (snd (exchange_after_token rt cfg token res w)) = snd ?p
        \<or> snd (snd (exchange_after_token rt cfg token res w)) = snd (testRequests rt cfg token (snd ?p))"
    using written
    by (simp add: exchange_after_token_def case_prod_beta split: sum.splits if_splits)
  then show ?thesis
  proof
    assume "snd (snd (exchange_after_token rt cfg token res w)) = snd ?p"
    with p show ?thesis by simp
  next
    assume "snd (snd (exchange_after_token rt cfg token res w)) = snd (testRequests rt cfg token (snd ?p))"
    with p ws show ?thesis by simp
  qed
qed

lemma testRequests_server_closed [simp]:
  "server_closed (snd (testRequests rt cfg token w)) = server_closed w"
  using testRequests_grows [of w rt cfg token] by (simp add: grows_def)

lemma after_token_server_closed [simp]:
  "server_closed (snd (snd (exchange_after_token rt cfg token res w))) = server_closed w"
  using after_token_grows [of w rt cfg token res] by (simp add: grows_def)

lemma exchange_server_closed [simp]:
  "server_closed (snd (snd (exchangeCodeForToken rt cfg req res w))) = server_closed w"
  by (auto simp: exchange_world exchange_try_def Let_def case_prod_beta fetch_def
        split: sum.splits)

lemma authorization_keeps_open:
  "server_closed (snd (snd (requestEpicAuthorization rt cfg res req w))) = server_closed w"
  by (auto simp: requestEpicAuthorization_def generateState_w_def generateState_def Let_def
        split: sum.splits)

subsection \<open>Evaluation of the examples\<close>

lemmas flow_defs =
  exchangeCodeForToken_def exchange_try_def exchange_after_token_def requestProfile_def
  testRequests_def successPage_def validateState_w_def validateState_def STATE_TTL_MS_def
  query_param_def fetch_def writeHead_def res_end_def writeFileSync_def mkdirSync_def
  existsSync_def dir_exists_def parent_dir_def RESPONSE_DIRECTORY_def response_file_def
  Date_now_def fresh_response_def ReferenceError_def Error_message_def nullish_def
  get_prop_def ok_def text_of_def json_of_def FETCH_PROFILE_def
  FETCH_ADDITIONAL_RESOURCES_def SHOW_TOKEN_IN_BROWSER_def Let_def

lemma ex_stringify: "JSON_stringify ex_token = Some ex_token_file"
  by (simp add: JSON_stringify_def ex_token_def ex_token_file_def wrap_json_def
        QuoteJSONString_def quote_char_def LF_def ex_id_token_def)

lemma ex_body_differs: "ex_token_file \<noteq> ex_token_body"
  by (simp add: ex_token_file_def ex_token_body_def LF_def)

lemma ex_parse_empty: "ex_parse ''{}'' = Inr (JObj [])"
  by (simp add: ex_parse_def ex_token_body_def)

lemma ex_paths:
  "response_file 2000 (resource ex_patient) = ''./responses/2000-Patient.json''"
  "response_file 2001 (resource ex_observation) = ''./responses/2001-Observation.json''"
  "response_file 2000 (resource ex_slash) = ''./responses/2000-Patient/p1.json''"
  "parent_dir ''./responses/2000-Patient.json'' = ''./responses''"
  "parent_dir ''./responses/2001-Observation.json'' = ''./responses''"
  "parent_dir ''./responses/2000-Patient/p1.json'' = ''./responses/2000-Patient''"
  "parent_dir ''./responses'' = ''.''"
  by (simp_all add: response_file_def RESPONSE_DIRECTORY_def show_int_def parent_dir_def
        ex_patient_def ex_observation_def ex_slash_def)

lemma ex_urls:
  "req_url (resource_request ex_cfg_resources at ex_patient)
     = ''https://fhir.example/api/Patient?identifier=p1''"
  "req_url (resource_request ex_cfg_resources at ex_appointment)
     = ''https://fhir.example/api/Appointment?patient=p1''"
  "req_url (resource_request ex_cfg_resources at ex_observation)
     = ''https://fhir.example/api/Observation?''"
  "req_url (resource_request ex_cfg_slash at ex_slash) = ''https://fhir.example/api/Patient/p1?''"
  by (simp_all add: resource_request_def ex_cfg_resources_def ex_cfg_slash_def ex_cfg_def
        ex_patient_def ex_appointment_def ex_observation_def ex_slash_def
        URLSearchParams_toString_def urlencode_def urlencode_byte_def)

lemma ex_configured:
  "requests ex_cfg_resources = [ex_patient, ex_appointment, ex_observation]"
  "requests ex_cfg_slash = [ex_slash, ex_observation]"
  by (simp_all add: ex_cfg_resources_def ex_cfg_slash_def ex_requests_def)

lemmas resources_defs =
  testRequests_def nullish_def ex_token_def get_prop_def Let_def existsSync_def dir_exists_def
  mkdirSync_def fetch_def Date_now_def writeFileSync_def ex_rt_def empty_bundle_def
  not_found_def ok_def json_of_def text_of_def ex_parse_empty JSON_stringify_def wrap_json_def
  ex_world_def ex_paths ex_urls ex_configured RESPONSE_DIRECTORY_def

subsection \<open>An invalid state\<close>

text \<open>
  Whenever \<open>validateState\<close> returns \<open>false\<close> (the state parameter is absent, unknown or
  expired), the exchange ends at once: the response has the status 500, no request has been
  given to \<open>fetch\<close>, no file has been written, and the parameters \<open>error\<close> and \<open>code\<close> have no
  influence. The body of the response, however, is that of the \<open>ReferenceError\<close>.
\<close>

lemma exchange_invalid_state:
  assumes "\<not> fst (validateState_w rt (query_param req ''state'') w)"
  shows "exchangeCodeForToken rt cfg req fresh_response w =
           (Inr (), \<lparr>res_status = Some 500, res_headers = [],
                     res_body = Some ''undefined: state is not defined''\<rparr>,
            snd (validateState_w rt (query_param req ''state'') w))"
  using catch_fresh [OF exchange_try_invalid [OF assms], of fresh_response cfg]
  by (simp add: fresh_response_def ReferenceError_def)

lemma invalid_state_no_effects:
  assumes "\<not> fst (validateState_w rt (query_param req ''state'') w)"
  shows "fetch_log (snd (snd (exchangeCodeForToken rt cfg req fresh_response w))) = fetch_log w
       \<and> writes (snd (snd (exchangeCodeForToken rt cfg req fresh_response w))) = writes w"
  by (simp add: exchange_invalid_state [OF assms])

text \<open>
  Claim C3. A callback whose state parameter is unknown to the store, with a code parameter:
  the exchange aborts before any further step, with no request issued and no file written,
  but the error it aborts with is the \<open>ReferenceError\<close> of the unbound identifier \<open>state\<close>,
  which has no cause, and not the error with the cause \<open>Invalid State\<close> and the message
  \<open>Invalid state parameter: ...\<close> that the \<open>throw\<close> statement is written to raise.
\<close>

theorem unknown_state_raises_ReferenceError:
  "exchangeCodeForToken ex_rt ex_cfg
     \<lparr>pathname = Some ''/cb'', query = [(''state'', JStr ''zz''), (''code'', JStr ''abc'')]\<rparr>
     fresh_response ex_world
   = (Inr (), \<lparr>res_status = Some 500, res_headers = [],
               res_body = Some ''undefined: state is not defined''\<rparr>, ex_world)"
  by (simp add: flow_defs ex_world_def)

subsection \<open>The request to the token endpoint\<close>

text \<open>
  Claim C4, as amended. For every callback with a valid, unexpired state, no (or an empty)
  error parameter and a non-empty code parameter, \<open>exchangeCodeForToken\<close> gives exactly one
  \<open>POST\<close> to \<open>fetch\<close>: it goes to the token endpoint, is form-encoded, and its body carries
  \<open>grant_type=authorization_code\<close>, the code of the callback, the configured redirect
  address and client identifier (and the client secret when one is configured).
\<close>

theorem exactly_one_post:
  assumes "fst (validateState_w rt (query_param req ''state'') w)"
    and "\<not> truthy (query_param req ''error'')"
    and "truthy (query_param req ''code'')"
  shows "filter (\<lambda>r. req_method r = ''POST'')
           (drop (length (fetch_log w))
              (fetch_log (snd (snd (exchangeCodeForToken rt cfg req res w)))))
         = [\<lparr>req_method = ''POST'', req_url = js_to_string (tokenUri w),
              req_headers = [(''Content-Type'', ''application/x-www-form-urlencoded'')],
              req_body = Some (URLSearchParams_toString
                ([(''grant_type'', JStr ''authorization_code''),
                  (''code'', query_param req ''code''),
                  (''redirect_uri'', JStr (REDIRECT_URI cfg)),
                  (''client_id'', env_CLIENT_ID cfg)] @ secret_entry cfg))\<rparr>]"
proof -
  let ?w1 = "snd (validateState_w rt (query_param req ''state'') w)"
  let ?posted = "token_request cfg (tokenUri w) (query_param req ''code'')"
  let ?w2 = "?w1\<lparr>fetch_log := fetch_log w @ [?posted], events := events w @ [Fetched ?posted]\<rparr>"
  have post: "req_method ?posted = ''POST''" by (simp add: token_request_def)
  have "\<exists>rs. fetch_log (snd (snd (exchange_try rt cfg req res w))) = fetch_log w @ ?posted # rs
             \<and> (\<forall>r \<in> set rs. req_method r = ''GET'')"
  proof (cases "fetch_impl rt (length (fetch_log w)) ?posted")
    case (Inl e)
    then show ?thesis by (simp add: exchange_try_proceeds [OF assms] Let_def)
  next
    case (Inr tokenResponse)
    show ?thesis
    proof (cases "ok tokenResponse \<and> (\<exists>token. json_of rt tokenResponse = Inr token)")
      case False
      then show ?thesis using Inr
        by (auto simp: exchange_try_proceeds [OF assms] Let_def split: sum.splits)
    next
      case True
      then obtain token where token: "json_of rt tokenResponse = Inr token" by blast
      from after_token_grows [of ?w2 rt cfg token res] obtain rs where
        "fetch_log (snd (snd (exchange_after_token rt cfg token res ?w2))) = fetch_log ?w2 @ rs"
        "\<forall>r \<in> set rs. req_method r = ''GET''"
        by (auto simp: grows_def list_all_iff)
      then show ?thesis using Inr True token
        by (simp add: exchange_try_proceeds [OF assms] Let_def)
    qed
  qed
  then obtain rs where rs:
    "fetch_log (snd (snd (exchangeCodeForToken rt cfg req res w))) = fetch_log w @ ?posted # rs"
    "\<forall>r \<in> set rs. req_method r = ''GET''"
    by (auto simp: exchange_world)
  from rs(2) have "filter (\<lambda>r. req_method r = ''POST'') rs = []"
    by (auto simp: filter_empty_conv)
  with rs(1) post show ?thesis by (simp add: token_request_def)
qed

theorem exactly_one_post_witness:
  "fst (validateState_w ex_rt (query_param ex_req ''state'') ex_world)
   \<and> \<not> truthy (query_param ex_req ''error'')
   \<and> truthy (query_param ex_req ''code'')
   \<and> filter (\<lambda>r. req_method r = ''POST'')
        (drop (length (fetch_log ex_world))
           (fetch_log (snd (snd (exchangeCodeForToken ex_rt ex_cfg ex_req fresh_response
                                   ex_world)))))
      = [\<lparr>req_method = ''POST'', req_url = ''https://fhir.example/token'',
           req_headers = [(''Content-Type'', ''application/x-www-form-urlencoded'')],
           req_body = Some
             ''grant_type=authorization_code&code=abc&redirect_uri=http%3A%2F%2Flocalhost%3A4005%2Fcb&client_id=client-1''\<rparr>]"
proof -
  have h1: "fst (validateState_w ex_rt (query_param ex_req ''state'') ex_world)"
    by (simp add: validateState_w_def validateState_def STATE_TTL_MS_def query_param_def
          ex_req_def ex_world_def ex_rt_def)
  have h2: "\<not> truthy (query_param ex_req ''error'')"
    by (simp add: query_param_def ex_req_def)
  have h3: "truthy (query_param ex_req ''code'')"
    by (simp add: query_param_def ex_req_def)
  have body: "URLSearchParams_toString
                ([(''grant_type'', JStr ''authorization_code''),
                  (''code'', query_param ex_req ''code''),
                  (''redirect_uri'', JStr (REDIRECT_URI ex_cfg)),
                  (''client_id'', env_CLIENT_ID ex_cfg)] @ secret_entry ex_cfg)
     = ''grant_type=authorization_code&code=abc&redirect_uri=http%3A%2F%2Flocalhost%3A4005%2Fcb&client_id=client-1''"
    by (simp add: URLSearchParams_toString_def urlencode_def urlencode_byte_def hex_digit_def
          query_param_def ex_req_def REDIRECT_URI_def HOST_def PORT_def default_to_def
          ex_cfg_def secret_entry_def CLIENT_SECRET_def show_int_def)
  from exactly_one_post [OF h1 h2 h3, of ex_cfg fresh_response] body h1 h2 h3
  show ?thesis by (simp add: ex_world_def)
qed

text \<open>
  A code parameter that is present but empty is falsy: the exchange aborts with
  \<open>Missing code\<close> and issues no request, although the state is valid and unexpired and
  there is no error parameter.
\<close>

theorem empty_code_issues_no_post:
  "fst (validateState_w ex_rt (JStr ''s1'') ex_world)
   \<and> exchangeCodeForToken ex_rt ex_cfg
        \<lparr>pathname = Some ''/cb'', query = [(''state'', JStr ''s1''), (''code'', JStr [])]\<rparr>
        fresh_response ex_world
      = (Inr (), \<lparr>res_status = Some 500, res_headers = [],
                  res_body = Some ''Missing code: Missing authorization code''\<rparr>,
         ex_world\<lparr>stateStore := Map.empty, clock_reads := 1\<rparr>)
   \<and> fetch_log (ex_world\<lparr>stateStore := Map.empty, clock_reads := 1\<rparr>) = []"
  by (simp add: flow_defs ex_world_def ex_rt_def)

subsection \<open>The token record\<close>

text \<open>
  Claim C1, as amended. For every successful token exchange (valid state, no error, a
  code, a token response with a success status whose body parses as JSON, and a file system
  that raises no error for the write), the content written to \<open>./token.json\<close> is
  \<open>JSON.stringify(token, null, 2)\<close> of the parsed body: the same JSON value, serialised
  anew with an indentation of two spaces.
\<close>

theorem token_record_is_reserialised:
  assumes "fst (validateState_w rt (query_param req ''state'') w)"
    and "\<not> truthy (query_param req ''error'')"
    and "truthy (query_param req ''code'')"
    and "fetch_impl rt (length (fetch_log w))
           (token_request cfg (tokenUri w) (query_param req ''code'')) = Inr tokenResponse"
    and "ok tokenResponse"
    and "resp_body tokenResponse = Inr body"
    and "JSON_parse rt body = Inr token"
    and "JSON_stringify token = Some content"
    and "fs_error rt (length (writes w)) ''./token.json'' = None"
  shows "\<exists>rest. writes (snd (snd (exchangeCodeForToken rt cfg req res w)))
                  = writes w @ (''./token.json'', content) # rest"
proof -
  let ?w1 = "snd (validateState_w rt (query_param req ''state'') w)"
  let ?posted = "token_request cfg (tokenUri w) (query_param req ''code'')"
  let ?w2 = "?w1\<lparr>fetch_log := fetch_log w @ [?posted], events := events w @ [Fetched ?posted]\<rparr>"
  have json: "json_of rt tokenResponse = Inr token"
    using assms(6,7) by (simp add: json_of_def)
  have "exchange_try rt cfg req res w = exchange_after_token rt cfg token res ?w2"
    using assms(4,5) json by (simp add: exchange_try_proceeds [OF assms(1-3)] Let_def)
  moreover have "writes ?w2 = writes w" by simp
  ultimately show ?thesis
    using after_token_writes [OF assms(8), of rt ?w2 cfg res] assms(9)
    by (simp add: exchange_world)
qed

theorem token_record_is_reserialised_witness:
  "fst (validateState_w ex_rt (query_param ex_req ''state'') ex_world)
   \<and> \<not> truthy (query_param ex_req ''error'')
   \<and> truthy (query_param ex_req ''code'')
   \<and> fetch_impl ex_rt (length (fetch_log ex_world))
        (token_request ex_cfg (tokenUri ex_world) (query_param ex_req ''code''))
      = Inr \<lparr>resp_status = 200, resp_body = Inr ex_token_body\<rparr>
   \<and> ok \<lparr>resp_status = 200, resp_body = Inr ex_token_body\<rparr>
   \<and> JSON_parse ex_rt ex_token_body = Inr ex_token
   \<and> JSON_stringify ex_token = Some ex_token_file
   \<and> fs_error ex_rt (length (writes ex_world)) ''./token.json'' = None
   \<and> (\<exists>rest. writes (snd (snd (exchangeCodeForToken ex_rt ex_cfg ex_req fresh_response
                                   ex_world)))
               = writes ex_world @ (''./token.json'', ex_token_file) # rest)"
proof -
  have h1: "fst (validateState_w ex_rt (query_param ex_req ''state'') ex_world)"
    by (simp add: validateState_w_def validateState_def STATE_TTL_MS_def query_param_def
          ex_req_def ex_world_def ex_rt_def)
  have h2: "\<not> truthy (query_param ex_req ''error'')"
    by (simp add: query_param_def ex_req_def)
  have h3: "truthy (query_param ex_req ''code'')"
    by (simp add: query_param_def ex_req_def)
  have h4: "fetch_impl ex_rt (length (fetch_log ex_world))
        (token_request ex_cfg (tokenUri ex_world) (query_param ex_req ''code''))
      = Inr \<lparr>resp_status = 200, resp_body = Inr ex_token_body\<rparr>"
    by (simp add: ex_rt_def ex_world_def)
  have h5: "ok \<lparr>resp_status = 200, resp_body = Inr ex_token_body\<rparr>"
    by (simp add: ok_def)
  have h6: "resp_body \<lparr>resp_status = 200, resp_body = Inr ex_token_body\<rparr> = Inr ex_token_body"
    by simp
  have h7: "JSON_parse ex_rt ex_token_body = Inr ex_token"
    by (simp add: ex_rt_def ex_parse_def)
  have h8: "JSON_stringify ex_token = Some ex_token_file"
    by (simp add: JSON_stringify_def ex_token_def ex_token_file_def wrap_json_def
        QuoteJSONString_def quote_char_def LF_def ex_id_token_def)
  have h9: "fs_error ex_rt (length (writes ex_world)) ''./token.json'' = None"
    by (simp add: ex_rt_def)
  from token_record_is_reserialised [OF h1 h2 h3 h4 h5 h6 h7 h8 h9, of fresh_response]
    h1 h2 h3 h4 h5 h7 h8 h9
  show ?thesis by blast
qed

text \<open>
  The token endpoint answers with a compact JSON body; the exchange succeeds with status
  200, and the file written differs from the body received.
\<close>

theorem token_record_not_verbatim:
  "res_status (fst (snd (exchangeCodeForToken ex_rt ex_cfg ex_req fresh_response ex_world)))
     = Some 200
   \<and> fetch_impl ex_rt 0 (token_request ex_cfg (tokenUri ex_world) (JStr ''abc''))
       = Inr \<lparr>resp_status = 200, resp_body = Inr ex_token_body\<rparr>
   \<and> writes (snd (snd (exchangeCodeForToken ex_rt ex_cfg ex_req fresh_response ex_world)))
       = [(''./token.json'', ex_token_file)]
   \<and> ex_token_file \<noteq> ex_token_body"
  using ex_stringify ex_body_differs
  by (simp add: flow_defs ex_world_def ex_rt_def ex_req_def ex_cfg_def ex_parse_def
        ex_jwtDecode_def ex_token_def)

text \<open>
  When the file system raises an error for the write of the token record, the exchange
  aborts with that error and nothing is written; so it does when the disk is full.
\<close>

lemma token_write_failure_aborts:
  assumes "fst (validateState_w rt (query_param req ''state'') w)"
    and "\<not> truthy (query_param req ''error'')"
    and "truthy (query_param req ''code'')"
    and "fetch_impl rt (length (fetch_log w))
           (token_request cfg (tokenUri w) (query_param req ''code'')) = Inr tokenResponse"
    and "ok tokenResponse"
    and "json_of rt tokenResponse = Inr token"
    and "JSON_stringify token = Some content"
    and "fs_error rt (length (writes w)) ''./token.json'' = Some e"
  shows "fst (snd (exchangeCodeForToken rt cfg req fresh_response w))
           = \<lparr>res_status = Some 500, res_headers = [],
              res_body = Some (js_to_string (cause e) @ '': '' @ message e)\<rparr>
       \<and> writes (snd (snd (exchangeCodeForToken rt cfg req fresh_response w))) = writes w"
  using assms(4-8)
  by (simp add: exchangeCodeForToken_def exchange_try_proceeds [OF assms(1-3)] Let_def
        exchange_after_token_def writeFileSync_def dir_exists_def writeHead_def res_end_def
        fresh_response_def)

lemma disk_full_is_reported:
  "fst (snd (exchangeCodeForToken ex_rt_disk_full ex_cfg ex_req fresh_response ex_world))
     = \<lparr>res_status = Some 500, res_headers = [],
        res_body = Some ''undefined: ENOSPC: no space left on device, write''\<rparr>
   \<and> writes (snd (snd (exchangeCodeForToken ex_rt_disk_full ex_cfg ex_req fresh_response
                          ex_world))) = []"
  by (simp add: flow_defs ex_world_def ex_rt_def ex_rt_disk_full_def ex_req_def ex_cfg_def
        ex_parse_def ex_jwtDecode_def ex_token_def disk_full_def JSON_stringify_def)

subsection \<open>The profile\<close>

text \<open>
  Claim C7, as amended. When the fetch of the profile is enabled and, after a successful
  token exchange (the token record written), the profile endpoint answers with a status
  that is not a success (and a body that can be read), the profile is absent and the
  response to the caller is the success page with status 200.
\<close>

theorem profile_failure_absorbed:
  assumes "fst (validateState_w rt (query_param req ''state'') w)"
    and "\<not> truthy (query_param req ''error'')"
    and "truthy (query_param req ''code'')"
    and "fetch_impl rt (length (fetch_log w))
           (token_request cfg (tokenUri w) (query_param req ''code'')) = Inr tokenResponse"
    and "ok tokenResponse"
    and "json_of rt tokenResponse = Inr token"
    and "\<not> nullish token"
    and "fs_error rt (length (writes w)) ''./token.json'' = None"
    and "FETCH_PROFILE cfg"
    and "jwtDecode rt (get_prop token ''id_token'') = Inr decoded"
    and "\<not> nullish decoded"
    and "fetch_impl rt (Suc (length (fetch_log w)))
           (profile_request (get_prop decoded ''fhirUser'') (get_prop token ''access_token''))
         = Inr profileResponse"
    and "\<not> ok profileResponse"
    and "text_of profileResponse = Inr t"
  shows "\<exists>page. successPage rt cfg token JUndefined = Inr page
           \<and> fst (snd (exchangeCodeForToken rt cfg req fresh_response w))
               = \<lparr>res_status = Some 200, res_headers = [(''Content-Type'', ''text/html'')],
                  res_body = Some page\<rparr>"
proof -
  let ?w1 = "snd (validateState_w rt (query_param req ''state'') w)"
  let ?posted = "token_request cfg (tokenUri w) (query_param req ''code'')"
  let ?w2 = "?w1\<lparr>fetch_log := fetch_log w @ [?posted], events := events w @ [Fetched ?posted]\<rparr>"
  let ?sent = "\<lparr>res_status = Some 200, res_headers = [(''Content-Type'', ''text/html'')],
                 res_body = None :: string option\<rparr>"
  from assms(7) have "token \<noteq> JUndefined" by (auto simp: nullish_def)
  then obtain content where content: "JSON_stringify token = Some content"
    using JSON_stringify_defined by blast
  let ?w3 = "?w2\<lparr>writes := writes ?w2 @ [(''./token.json'', content)],
                  events := events ?w2 @ [Wrote ''./token.json'' content]\<rparr>"
  have tried: "exchange_try rt cfg req fresh_response w
               = exchange_after_token rt cfg token fresh_response ?w2"
    using assms(4-6) by (simp add: exchange_try_proceeds [OF assms(1-3)] Let_def)
  have written: "writeFileSync rt ''./token.json'' (JSON_stringify token) ?w2 = Inr ?w3"
    using content assms(8) by (simp add: writeFileSync_succeeds)
  have profile: "fst (requestProfile rt token ?w3) = Inr JUndefined"
    using assms(7,10-14) by (simp add: requestProfile_def Let_def fetch_def)
  obtain page where page: "successPage rt cfg token JUndefined = Inr page"
    using assms(7,10) by (simp add: successPage_def Let_def)
  have "\<exists>out w'. exchange_after_token rt cfg token fresh_response ?w2
          = (out, res_end page ?sent, w')"
    using written profile page assms(9)
    by (simp add: exchange_after_token_def writeHead_def fresh_response_def
          case_prod_beta split: sum.splits)
  then obtain out w' where
    "exchange_try rt cfg req fresh_response w = (out, res_end page ?sent, w')"
    using tried by auto
  from exchange_response_after_end [OF this] page show ?thesis
    by (simp add: res_end_def)
qed

theorem profile_failure_absorbed_witness:
  "fst (validateState_w ex_rt_profile_404 (query_param ex_req ''state'') ex_world)
   \<and> FETCH_PROFILE ex_cfg_profile
   \<and> fs_error ex_rt_profile_404 (length (writes ex_world)) ''./token.json'' = None
   \<and> json_of ex_rt_profile_404 \<lparr>resp_status = 200, resp_body = Inr ex_token_body\<rparr> = Inr ex_token
   \<and> fetch_impl ex_rt_profile_404 (Suc (length (fetch_log ex_world)))
        (profile_request (JStr ''https://fhir.example/api/Patient/1'') (JStr ''tok''))
      = Inr not_found
   \<and> \<not> ok not_found
   \<and> res_status (fst (snd (exchangeCodeForToken ex_rt_profile_404 ex_cfg_profile ex_req
                             fresh_response ex_world))) = Some 200
   \<and> (\<exists>page. successPage ex_rt_profile_404 ex_cfg_profile ex_token JUndefined = Inr page
        \<and> fst (snd (exchangeCodeForToken ex_rt_profile_404 ex_cfg_profile ex_req
                       fresh_response ex_world))
            = \<lparr>res_status = Some 200, res_headers = [(''Content-Type'', ''text/html'')],
               res_body = Some page\<rparr>)"
proof -
  let ?decoded = "JObj [(''fhirUser'', JStr ''https://fhir.example/api/Patient/1'')]"
  let ?tokenResponse = "\<lparr>resp_status = 200, resp_body = Inr ex_token_body\<rparr>"
  have h1: "fst (validateState_w ex_rt_profile_404 (query_param ex_req ''state'') ex_world)"
    by (simp add: validateState_w_def validateState_def STATE_TTL_MS_def query_param_def
          ex_req_def ex_world_def ex_rt_def ex_rt_profile_404_def)
  have h2: "\<not> truthy (query_param ex_req ''error'')"
    by (simp add: query_param_def ex_req_def)
  have h3: "truthy (query_param ex_req ''code'')"
    by (simp add: query_param_def ex_req_def)
  have h4: "fetch_impl ex_rt_profile_404 (length (fetch_log ex_world))
        (token_request ex_cfg_profile (tokenUri ex_world) (query_param ex_req ''code''))
      = Inr ?tokenResponse"
    by (simp add: ex_rt_def ex_rt_profile_404_def ex_world_def)
  have h5: "ok ?tokenResponse" by (simp add: ok_def)
  have h6: "json_of ex_rt_profile_404 ?tokenResponse = Inr ex_token"
    by (simp add: json_of_def ex_rt_def ex_rt_profile_404_def ex_parse_def)
  have h7: "\<not> nullish ex_token" by (simp add: nullish_def ex_token_def)
  have hw: "fs_error ex_rt_profile_404 (length (writes ex_world)) ''./token.json'' = None"
    by (simp add: ex_rt_def ex_rt_profile_404_def)
  have h8: "FETCH_PROFILE ex_cfg_profile"
    by (simp add: FETCH_PROFILE_def ex_cfg_profile_def)
  have h9: "jwtDecode ex_rt_profile_404 (get_prop ex_token ''id_token'') = Inr ?decoded"
    by (simp add: ex_rt_def ex_rt_profile_404_def ex_jwtDecode_def get_prop_def ex_token_def)
  have h10: "\<not> nullish ?decoded" by (simp add: nullish_def)
  have p1: "get_prop ?decoded ''fhirUser'' = JStr ''https://fhir.example/api/Patient/1''"
    by (simp add: get_prop_def)
  have p2: "get_prop ex_token ''access_token'' = JStr ''tok''"
    by (simp add: get_prop_def ex_token_def)
  have h11: "fetch_impl ex_rt_profile_404 (Suc (length (fetch_log ex_world)))
        (profile_request (get_prop ?decoded ''fhirUser'') (get_prop ex_token ''access_token''))
      = Inr not_found"
    by (simp add: ex_rt_def ex_rt_profile_404_def)
  have h12: "\<not> ok not_found" by (simp add: ok_def not_found_def)
  have h13: "text_of not_found = Inr ''Not Found''" by (simp add: text_of_def not_found_def)
  from profile_failure_absorbed [OF h1 h2 h3 h4 h5 h6 h7 hw h8 h9 h10 h11 h12 h13]
  have concl: "\<exists>page. successPage ex_rt_profile_404 ex_cfg_profile ex_token JUndefined = Inr page
        \<and> fst (snd (exchangeCodeForToken ex_rt_profile_404 ex_cfg_profile ex_req
                       fresh_response ex_world))
            = \<lparr>res_status = Some 200, res_headers = [(''Content-Type'', ''text/html'')],
               res_body = Some page\<rparr>" .
  then have status: "res_status (fst (snd (exchangeCodeForToken ex_rt_profile_404 ex_cfg_profile
                             ex_req fresh_response ex_world))) = Some 200"
    by auto
  from h11 have h11': "fetch_impl ex_rt_profile_404 (Suc (length (fetch_log ex_world)))
        (profile_request (JStr ''https://fhir.example/api/Patient/1'') (JStr ''tok''))
      = Inr not_found"
    by (simp only: p1 p2)
  from h1 h8 hw h6 h11' h12 status concl show ?thesis by blast
qed

text \<open>
  When instead the fetch of the profile is rejected (a network failure), the error reaches
  the \<open>catch\<close> clause: the token record has been written, and the caller receives the
  status 500.
\<close>

theorem rejected_profile_fetch_is_fatal:
  "writes (snd (snd (exchangeCodeForToken ex_rt ex_cfg_profile ex_req fresh_response ex_world)))
     = [(''./token.json'', ex_token_file)]
   \<and> fst (snd (exchangeCodeForToken ex_rt ex_cfg_profile ex_req fresh_response ex_world))
     = \<lparr>res_status = Some 500, res_headers = [], res_body = Some ''undefined: fetch failed''\<rparr>"
  using ex_stringify
  by (simp add: flow_defs ex_world_def ex_rt_def ex_req_def ex_cfg_def ex_cfg_profile_def
        ex_parse_def ex_jwtDecode_def ex_token_def fetch_failed_def)

subsection \<open>The additional resources\<close>

text \<open>
  When every fetch settles and every file can be written, the iteration returns normally,
  and the world it leaves differs from the one it started in by exactly the fetches of all
  resources, the files of the successful responses, the trace of both and the readings of
  the clock.
\<close>

lemma each_settles:
  assumes "list_all (settles rt) (outcomes rt cfg at (length (fetch_log w)) reqs)"
    and "all_writable rt (dirs w) (length (writes w))
           (map fst (planned_writes rt (clock_reads w)
                       (zip reqs (outcomes rt cfg at (length (fetch_log w)) reqs))))"
  shows "testRequests_each rt cfg at reqs w =
           (Inr (),
            w\<lparr>fetch_log := fetch_log w @ map (resource_request cfg at) reqs,
              writes := writes w @ planned_writes rt (clock_reads w)
                          (zip reqs (outcomes rt cfg at (length (fetch_log w)) reqs)),
              events := events w @ planned_events rt cfg at (clock_reads w)
                          (zip reqs (outcomes rt cfg at (length (fetch_log w)) reqs)),
              clock_reads := clock_reads w + length (planned_writes rt (clock_reads w)
                          (zip reqs (outcomes rt cfg at (length (fetch_log w)) reqs)))\<rparr>)"
  using assms
proof (induction reqs arbitrary: w)
  case Nil
  show ?case by simp
next
  case (Cons request rest)
  let ?r = "resource_request cfg at request"
  let ?w1 = "snd (fetch rt ?r w)"
  from Cons.prems(1) obtain res where res: "fetch_impl rt (length (fetch_log w)) ?r = Inr res"
    by (auto simp: settles_def split: sum.splits)
  from Cons.prems(1)
  have tail: "list_all (settles rt) (outcomes rt cfg at (Suc (length (fetch_log w))) rest)"
    by simp
  show ?case
  proof (cases "ok res")
    case False
    with Cons.prems(1) res obtain t where t: "text_of res = Inr t"
      by (auto simp: settles_def split: sum.splits)
    have s1: "list_all (settles rt) (outcomes rt cfg at (length (fetch_log ?w1)) rest)"
      using tail by simp
    have s2: "all_writable rt (dirs ?w1) (length (writes ?w1))
           (map fst (planned_writes rt (clock_reads ?w1)
                       (zip rest (outcomes rt cfg at (length (fetch_log ?w1)) rest))))"
      using Cons.prems(2) res False by (simp add: succeeded_def)
    from Cons.IH [OF s1 s2] show ?thesis using res False t
      by (simp add: succeeded_def fetch_def)
  next
    case True
    with Cons.prems(1) res obtain v where v: "json_of rt res = Inr v" "v \<noteq> JUndefined"
      by (auto simp: settles_def split: sum.splits)
    then obtain content where content: "JSON_stringify v = Some content"
      using JSON_stringify_defined by blast
    let ?path = "response_file (clock rt (clock_reads w)) (resource request)"
    let ?w2 = "snd (Date_now rt ?w1)"
    let ?w3 = "?w2\<lparr>writes := writes ?w2 @ [(?path, content)],
                    events := events ?w2 @ [Wrote ?path content]\<rparr>"
    from Cons.prems(2) res True
    have here: "fs_error rt (length (writes w)) ?path = None"
         "parent_dir ?path = ''.'' \<or> parent_dir ?path \<in> set (dirs w)"
      and later: "all_writable rt (dirs w) (Suc (length (writes w)))
           (map fst (planned_writes rt (Suc (clock_reads w))
                       (zip rest (outcomes rt cfg at (Suc (length (fetch_log w))) rest))))"
      by (simp_all add: succeeded_def)
    have written: "writeFileSync rt ?path (JSON_stringify v) ?w2 = Inr ?w3"
      using here content by (simp add: writeFileSync_succeeds)
    have s1: "list_all (settles rt) (outcomes rt cfg at (length (fetch_log ?w3)) rest)"
      using tail by simp
    have s2: "all_writable rt (dirs ?w3) (length (writes ?w3))
           (map fst (planned_writes rt (clock_reads ?w3)
                       (zip rest (outcomes rt cfg at (length (fetch_log ?w3)) rest))))"
      using later by simp
    from Cons.IH [OF s1 s2] show ?thesis using res True v content written
      by (simp add: succeeded_def fetch_def Date_now_def persisted_content_def in_template_def)
  qed
qed

lemma all_writable_cong:
  "set ds = set ds' \<Longrightarrow> all_writable rt ds n paths = all_writable rt ds' n paths"
  by (induction paths arbitrary: n) simp_all

text \<open>
  Claim C6, as amended. Let the directory of the responses exist or be creatable, let every
  fetch of a configured resource settle (it resolves with a response, of whatever status,
  whose body can be read), and let the file of every response with a success status be
  writable (its directory exists, the file system raises no error). Then \<open>testRequests\<close>
  returns normally; it has issued the fetches of all configured resources in configured
  order; it has written, for every response with a success status and in that order, the
  file named by the time of writing and the resource, holding the serialised JSON of the
  response; and the trace of events is strictly sequential: the fetch of a resource, then
  the write of its file if the response is a success, then the fetch of the next resource.
  So a response with a failure status for one resource does not keep the remaining ones
  from being fetched and persisted.
\<close>

theorem failed_status_does_not_stop_resources:
  assumes "\<not> nullish token"
    and "existsSync RESPONSE_DIRECTORY w
         \<or> fs_error rt (length (writes w)) RESPONSE_DIRECTORY = None"
    and "list_all (settles rt) (map snd (resource_outcomes rt cfg token w))"
    and "all_writable rt (RESPONSE_DIRECTORY # dirs w) (length (writes w))
           (map fst (planned_writes rt (clock_reads w) (resource_outcomes rt cfg token w)))"
  shows "fst (testRequests rt cfg token w) = Inr ()
       \<and> fetch_log (snd (testRequests rt cfg token w))
           = fetch_log w @ map (resource_request cfg (get_prop token ''access_token'')) (requests cfg)
       \<and> writes (snd (testRequests rt cfg token w))
           = writes w @ planned_writes rt (clock_reads w) (resource_outcomes rt cfg token w)
       \<and> events (snd (testRequests rt cfg token w))
           = events w @ planned_events rt cfg (get_prop token ''access_token'') (clock_reads w)
                          (resource_outcomes rt cfg token w)"
proof -
  let ?at = "get_prop token ''access_token''"
  let ?w1 = "if existsSync RESPONSE_DIRECTORY w then w
             else w\<lparr>dirs := dirs w @ [RESPONSE_DIRECTORY]\<rparr>"
  have len: "length (outcomes rt cfg ?at n reqs) = length reqs" for n reqs
    by (induction reqs arbitrary: n) simp_all
  have outs: "map snd (resource_outcomes rt cfg token w)
                = outcomes rt cfg ?at (length (fetch_log w)) (requests cfg)"
    by (simp add: resource_outcomes_def len)
  have ensured: "(if \<not> existsSync RESPONSE_DIRECTORY w then mkdirSync rt RESPONSE_DIRECTORY w
                  else Inr w) = Inr ?w1"
    using assms(2)
    by (auto simp: mkdirSync_def existsSync_def dir_exists_def RESPONSE_DIRECTORY_def
          parent_dir_def)
  have run: "testRequests rt cfg token w = testRequests_each rt cfg ?at (requests cfg) ?w1"
    using assms(1) ensured by (simp add: testRequests_def Let_def)
  have same: "fetch_log ?w1 = fetch_log w" "writes ?w1 = writes w" "events ?w1 = events w"
    "clock_reads ?w1 = clock_reads w"
    by simp_all
  have "set (dirs ?w1) = set (RESPONSE_DIRECTORY # dirs w)"
    by (auto simp: existsSync_def dir_exists_def RESPONSE_DIRECTORY_def)
  then have w: "all_writable rt (dirs ?w1) (length (writes ?w1))
           (map fst (planned_writes rt (clock_reads ?w1)
              (zip (requests cfg) (outcomes rt cfg ?at (length (fetch_log ?w1)) (requests cfg)))))"
    using assms(4) all_writable_cong [of "dirs ?w1" "RESPONSE_DIRECTORY # dirs w"]
    unfolding same by (simp add: resource_outcomes_def)
  have s: "list_all (settles rt) (outcomes rt cfg ?at (length (fetch_log ?w1)) (requests cfg))"
    using assms(3) unfolding same outs .
  show ?thesis
    unfolding run each_settles [OF s w] same
    by (simp add: resource_outcomes_def)
qed

theorem failed_status_does_not_stop_resources_witness:
  "\<not> nullish ex_token
   \<and> (existsSync RESPONSE_DIRECTORY ex_world
        \<or> fs_error ex_rt_second_404 (length (writes ex_world)) RESPONSE_DIRECTORY = None)
   \<and> resource_outcomes ex_rt_second_404 ex_cfg_resources ex_token ex_world
      = [(ex_patient, Inr empty_bundle), (ex_appointment, Inr not_found),
         (ex_observation, Inr empty_bundle)]
   \<and> map succeeded [Inr empty_bundle, Inr not_found] = [True, False]
   \<and> list_all (settles ex_rt_second_404)
        (map snd (resource_outcomes ex_rt_second_404 ex_cfg_resources ex_token ex_world))
   \<and> all_writable ex_rt_second_404 (RESPONSE_DIRECTORY # dirs ex_world) (length (writes ex_world))
        (map fst (planned_writes ex_rt_second_404 (clock_reads ex_world)
                    (resource_outcomes ex_rt_second_404 ex_cfg_resources ex_token ex_world)))
   \<and> fst (testRequests ex_rt_second_404 ex_cfg_resources ex_token ex_world) = Inr ()
   \<and> map req_url (fetch_log (snd (testRequests ex_rt_second_404 ex_cfg_resources ex_token
                                    ex_world)))
      = [''https://fhir.example/api/Patient?identifier=p1'',
         ''https://fhir.example/api/Appointment?patient=p1'',
         ''https://fhir.example/api/Observation?'']
   \<and> writes (snd (testRequests ex_rt_second_404 ex_cfg_resources ex_token ex_world))
      = [(''./responses/2000-Patient.json'', ''{}''),
         (''./responses/2001-Observation.json'', ''{}'')]
   \<and> events (snd (testRequests ex_rt_second_404 ex_cfg_resources ex_token ex_world))
      = [Fetched (resource_request ex_cfg_resources (JStr ''tok'') ex_patient),
         Wrote ''./responses/2000-Patient.json'' ''{}'',
         Fetched (resource_request ex_cfg_resources (JStr ''tok'') ex_appointment),
         Fetched (resource_request ex_cfg_resources (JStr ''tok'') ex_observation),
         Wrote ''./responses/2001-Observation.json'' ''{}'']"
proof -
  let ?rt = ex_rt_second_404
  have h1: "\<not> nullish ex_token" by (simp add: nullish_def ex_token_def)
  have h2: "existsSync RESPONSE_DIRECTORY ex_world
        \<or> fs_error ?rt (length (writes ex_world)) RESPONSE_DIRECTORY = None"
    by (simp add: ex_rt_second_404_def ex_rt_def)
  have at: "get_prop ex_token ''access_token'' = JStr ''tok''"
    by (simp add: get_prop_def ex_token_def)
  have ros: "resource_outcomes ?rt ex_cfg_resources ex_token ex_world
           = [(ex_patient, Inr empty_bundle), (ex_appointment, Inr not_found),
              (ex_observation, Inr empty_bundle)]"
    by (simp add: resource_outcomes_def ex_rt_second_404_def ex_configured ex_world_def)
  have ok: "succeeded (Inr empty_bundle)" "\<not> succeeded (Inr not_found)"
    by (simp_all add: succeeded_def ok_def empty_bundle_def not_found_def)
  have h0: "map succeeded [Inr empty_bundle, Inr not_found] = [True, False]"
    using ok by simp
  have content: "persisted_content ?rt (Inr empty_bundle) = ''{}''"
    by (simp add: persisted_content_def json_of_def empty_bundle_def ex_rt_second_404_def
          ex_rt_def ex_parse_empty in_template_def JSON_stringify_def wrap_json_def)
  have clk: "clock ?rt 0 = 2000" "clock ?rt (Suc 0) = 2001"
    by (simp_all add: ex_rt_second_404_def ex_rt_def)
  have plan: "planned_writes ?rt (clock_reads ex_world)
                (resource_outcomes ?rt ex_cfg_resources ex_token ex_world)
           = [(''./responses/2000-Patient.json'', ''{}''),
              (''./responses/2001-Observation.json'', ''{}'')]"
    unfolding ros by (simp add: ok content clk ex_paths ex_world_def)
  have trace: "planned_events ?rt ex_cfg_resources (JStr ''tok'') (clock_reads ex_world)
                (resource_outcomes ?rt ex_cfg_resources ex_token ex_world)
           = [Fetched (resource_request ex_cfg_resources (JStr ''tok'') ex_patient),
              Wrote ''./responses/2000-Patient.json'' ''{}'',
              Fetched (resource_request ex_cfg_resources (JStr ''tok'') ex_appointment),
              Fetched (resource_request ex_cfg_resources (JStr ''tok'') ex_observation),
              Wrote ''./responses/2001-Observation.json'' ''{}'']"
    unfolding ros by (simp add: ok content clk ex_paths ex_world_def)
  have h3: "list_all (settles ?rt)
        (map snd (resource_outcomes ?rt ex_cfg_resources ex_token ex_world))"
    unfolding ros
    by (simp add: settles_def ok_def empty_bundle_def not_found_def json_of_def text_of_def
          ex_rt_second_404_def ex_rt_def ex_parse_empty)
  have h4: "all_writable ?rt (RESPONSE_DIRECTORY # dirs ex_world) (length (writes ex_world))
        (map fst (planned_writes ?rt (clock_reads ex_world)
                    (resource_outcomes ?rt ex_cfg_resources ex_token ex_world)))"
    unfolding plan
    by (simp add: ex_paths RESPONSE_DIRECTORY_def ex_rt_second_404_def ex_rt_def)
  from failed_status_does_not_stop_resources [OF h1 h2 h3 h4]
  have concl: "fst (testRequests ?rt ex_cfg_resources ex_token ex_world) = Inr ()"
    "fetch_log (snd (testRequests ?rt ex_cfg_resources ex_token ex_world))
       = fetch_log ex_world @ map (resource_request ex_cfg_resources (JStr ''tok''))
           (requests ex_cfg_resources)"
    "writes (snd (testRequests ?rt ex_cfg_resources ex_token ex_world))
       = writes ex_world @ [(''./responses/2000-Patient.json'', ''{}''),
                            (''./responses/2001-Observation.json'', ''{}'')]"
    "events (snd (testRequests ?rt ex_cfg_resources ex_token ex_world))
       = events ex_world
         @ [Fetched (resource_request ex_cfg_resources (JStr ''tok'') ex_patient),
            Wrote ''./responses/2000-Patient.json'' ''{}'',
            Fetched (resource_request ex_cfg_resources (JStr ''tok'') ex_appointment),
            Fetched (resource_request ex_cfg_resources (JStr ''tok'') ex_observation),
            Wrote ''./responses/2001-Observation.json'' ''{}'']"
    unfolding plan trace at by blast+
  have log: "map req_url (fetch_log (snd (testRequests ?rt ex_cfg_resources ex_token ex_world)))
      = [''https://fhir.example/api/Patient?identifier=p1'',
         ''https://fhir.example/api/Appointment?patient=p1'',
         ''https://fhir.example/api/Observation?'']"
    unfolding concl(2) by (simp add: ex_world_def ex_configured ex_urls)
  have w: "writes (snd (testRequests ?rt ex_cfg_resources ex_token ex_world))
      = [(''./responses/2000-Patient.json'', ''{}''),
         (''./responses/2001-Observation.json'', ''{}'')]"
    unfolding concl(3) by (simp add: ex_world_def)
  have e: "events (snd (testRequests ?rt ex_cfg_resources ex_token ex_world))
      = [Fetched (resource_request ex_cfg_resources (JStr ''tok'') ex_patient),
         Wrote ''./responses/2000-Patient.json'' ''{}'',
         Fetched (resource_request ex_cfg_resources (JStr ''tok'') ex_appointment),
         Fetched (resource_request ex_cfg_resources (JStr ''tok'') ex_observation),
         Wrote ''./responses/2001-Observation.json'' ''{}'']"
    unfolding concl(4) by (simp add: ex_world_def)
  from h1 h2 ros h0 h3 h4 concl(1) log w e show ?thesis by blast
qed

text \<open>
  When the fetch of the second of three resources is rejected, \<open>testRequests\<close> rejects with
  that error and the third resource is never requested; the file of the first resource has
  been written.
\<close>

theorem rejected_fetch_stops_resources:
  "fst (testRequests ex_rt_second_rejected ex_cfg_resources ex_token ex_world) = Inl fetch_failed
   \<and> map req_url (fetch_log (snd (testRequests ex_rt_second_rejected ex_cfg_resources ex_token
                                    ex_world)))
     = [''https://fhir.example/api/Patient?identifier=p1'',
        ''https://fhir.example/api/Appointment?patient=p1'']
   \<and> writes (snd (testRequests ex_rt_second_rejected ex_cfg_resources ex_token ex_world))
     = [(''./responses/2000-Patient.json'', ''{}'')]"
  by (simp add: resources_defs ex_rt_second_rejected_def)

text \<open>
  A failing write stops the iteration as well. The name of a resource that contains a
  slash puts its file into a directory that does not exist: \<open>writeFileSync\<close> throws
  \<open>ENOENT\<close>, and the second resource is never requested although every fetch succeeds.
\<close>

lemma slash_in_resource_name_stops_resources:
  "fst (testRequests ex_rt_all_ok ex_cfg_slash ex_token ex_world)
     = Inl (ENOENT ''./responses/2000-Patient/p1.json'')
   \<and> map req_url (fetch_log (snd (testRequests ex_rt_all_ok ex_cfg_slash ex_token ex_world)))
     = [''https://fhir.example/api/Patient/p1?'']
   \<and> writes (snd (testRequests ex_rt_all_ok ex_cfg_slash ex_token ex_world)) = []"
  by (simp add: resources_defs ex_rt_all_ok_def)

subsection \<open>The error responses\<close>

text \<open>
  The aborts that the provider's error, a missing code and a failed token exchange cause
  answer with status 500 and the body \<open>cause: message\<close> of the error raised.
\<close>

lemma provider_error_reported:
  assumes "fst (validateState_w rt (query_param req ''state'') w)"
    and "truthy (query_param req ''error'')"
  shows "exchangeCodeForToken rt cfg req fresh_response w =
           (Inr (), \<lparr>res_status = Some 500, res_headers = [],
                     res_body = Some (js_to_string (query_param req ''error'') @ '': ''
                                  @ Error_message (query_param req ''error_description''))\<rparr>,
            snd (validateState_w rt (query_param req ''state'') w))"
  using assms
  by (simp add: exchangeCodeForToken_def exchange_try_def Let_def case_prod_beta writeHead_def
        res_end_def fresh_response_def)

lemma missing_code_reported:
  assumes "fst (validateState_w rt (query_param req ''state'') w)"
    and "\<not> truthy (query_param req ''error'')"
    and "\<not> truthy (query_param req ''code'')"
  shows "exchangeCodeForToken rt cfg req fresh_response w =
           (Inr (), \<lparr>res_status = Some 500, res_headers = [],
                     res_body = Some ''Missing code: Missing authorization code''\<rparr>,
            snd (validateState_w rt (query_param req ''state'') w))"
  using assms
  by (simp add: exchangeCodeForToken_def exchange_try_def Let_def case_prod_beta writeHead_def
        res_end_def fresh_response_def)

lemma failed_exchange_reported:
  assumes "fst (validateState_w rt (query_param req ''state'') w)"
    and "\<not> truthy (query_param req ''error'')"
    and "truthy (query_param req ''code'')"
    and "fetch_impl rt (length (fetch_log w))
           (token_request cfg (tokenUri w) (query_param req ''code'')) = Inr tokenResponse"
    and "\<not> ok tokenResponse"
    and "text_of tokenResponse = Inr t"
  shows "fst (exchangeCodeForToken rt cfg req fresh_response w) = Inr ()
       \<and> fst (snd (exchangeCodeForToken rt cfg req fresh_response w)) =
           \<lparr>res_status = Some 500, res_headers = [],
            res_body = Some (''Failed to get token from Epic: Token exchange failed: ''
                         @ show_nat (resp_status tokenResponse) @ '' '' @ t)\<rparr>"
  using assms(4-6)
  by (simp add: exchangeCodeForToken_def exchange_try_proceeds [OF assms(1-3)] Let_def
        writeHead_def res_end_def fresh_response_def)

text \<open>
  Claim C8. The abort for an invalid state (here an expired one) answers with status 500,
  but its body is \<open>undefined: state is not defined\<close>: it has neither the cause
  \<open>Invalid State\<close> nor the message of the error that the \<open>throw\<close> statement names.
\<close>

theorem expired_state_body_has_no_cause:
  "fst (snd (exchangeCodeForToken (ex_rt\<lparr>clock := (\<lambda>n. 400000)\<rparr>) ex_cfg ex_req
               fresh_response ex_world))
   = \<lparr>res_status = Some 500, res_headers = [],
      res_body = Some ''undefined: state is not defined''\<rparr>"
  by (simp add: flow_defs ex_world_def ex_req_def)

section \<open>Properties of the server\<close>

text \<open>
  When the listener returns normally, \<open>server.close\<close> has been called exactly for the
  requests that are neither for the home page nor for the initialisation path.
\<close>

lemma listener_closes_after_return:
  assumes "fst (server_listener rt cfg req res w) = Inr ()"
  shows "server_closed (snd (snd (server_listener rt cfg req res w)))
         = (server_closed w
            \<or> \<not> (pathname req = Some [] \<or> pathname req = Some ''/''
                  \<or> path_is (pathname req) (env_INITIALIZATION_PATH cfg)))"
proof (cases "pathname req = Some [] \<or> pathname req = Some ''/''")
  case True
  then show ?thesis
    by (auto simp: server_listener_def split: sum.splits)
next
  case home: False
  show ?thesis
  proof (cases "path_is (pathname req) (env_INITIALIZATION_PATH cfg)")
    case True
    then show ?thesis using home
      by (simp add: server_listener_def authorization_keeps_open)
  next
    case False
    then show ?thesis using home assms
      by (auto simp: server_listener_def server_close_def case_prod_beta
            split: sum.splits if_splits)
  qed
qed

text \<open>
  Claim C10. A callback with a valid state and a code, with the additional resources
  enabled: the token exchange succeeds and the success page is sent, then the fetch of the
  first resource is rejected. The \<open>catch\<close> clause calls \<open>writeHead\<close> on the response already
  sent, which throws; the promise of the listener rejects with \<open>ERR_HTTP_HEADERS_SENT\<close>
  and \<open>server.close\<close> is never called.
\<close>

theorem listener_rejects_without_close:
  "fst (server_listener ex_rt ex_cfg_resources ex_req fresh_response ex_world)
     = Inl ERR_HTTP_HEADERS_SENT
   \<and> res_status (fst (snd (server_listener ex_rt ex_cfg_resources ex_req fresh_response
                             ex_world))) = Some 200
   \<and> server_closed (snd (snd (server_listener ex_rt ex_cfg_resources ex_req fresh_response
                                ex_world))) = False"
  using ex_stringify
  by (simp add: server_listener_def path_is_def flow_defs ex_world_def ex_rt_def ex_req_def
        ex_cfg_def ex_cfg_resources_def ex_requests_def ex_parse_def ex_jwtDecode_def
        ex_token_def fetch_failed_def)

end
